theory Spec2Isabelle
  imports Main
begin

section \<open>The ETS notebook as data\<close>

text \<open>
  The repository consists of one Jupyter notebook, \<^verbatim>\<open>examples/notebooks/ets.ipynb\<close>.
  A notebook is a list of cells; a code cell holds a straight-line Python script.
  The script is kept as abstract syntax, one constructor per Python form, so that
  statements about what the notebook contains (which calls, which keyword arguments,
  which statement forms) are statements about this value, and statements about what
  it does are statements about the interpreter of the next section applied to it.
\<close>

subsection \<open>Expressions and statements\<close>

text \<open>
  \<open>FloatLit m d\<close> is the decimal literal with digits \<open>m\<close> and \<open>d\<close> digits after the
  point, so \<^verbatim>\<open>111.0091\<close> is \<open>FloatLit 1110091 4\<close> and \<^verbatim>\<open>30.05251300\<close> is
  \<open>FloatLit 3005251300 8\<close>. \<open>SliceAll\<close> is the bare \<^verbatim>\<open>:\<close> of a subscript.
  \<open>USub\<close> is the unary minus, as in \<^verbatim>\<open>-0.50735902\<close>.
\<close>

datatype expr =
    Name string
  | Attr expr string
  | Call expr "expr list" "(string \<times> expr) list"
  | Subscript expr expr
  | Str string
  | IntLit int
  | FloatLit int nat
  | BoolLit bool
  | ListE "expr list"
  | TupleE "expr list"
  | SliceAll
  | USub expr

text \<open>
  The statement forms of Python that the specification speaks of. The notebook uses
  imports, one IPython magic, assignments, expression statements and one \<^verbatim>\<open>for\<close>
  loop; \<open>Try\<close>, \<open>IfStmt\<close>, \<open>While\<close>, \<open>FunctionDef\<close> and \<open>ClassDef\<close> are the forms
  it says are absent.
\<close>

datatype stmt =
    Import string string
  | ImportFrom string string
  | Magic string
  | Assign expr expr
  | ExprStmt expr
  | For string expr "stmt list"
  | Try "stmt list" "stmt list"
  | IfStmt expr "stmt list" "stmt list"
  | While expr "stmt list"
  | FunctionDef string "stmt list"
  | ClassDef string "stmt list"

datatype cell = Markdown string | Code "stmt list"

subsection \<open>The literal data\<close>

text \<open>The elements of the list literal bound to \<^verbatim>\<open>oildata\<close> (source lines 74 to 88).\<close>

definition oildata :: "expr list" where
  "oildata = [
   FloatLit 1110091 4, FloatLit 1308284 4, FloatLit 1412871 4, FloatLit 1542278 4,
   FloatLit 1627409 4, FloatLit 1921665 4, FloatLit 2407997 4, FloatLit 3042174 4,
   FloatLit 3840046 4, FloatLit 4296622 4, FloatLit 3593169 4, FloatLit 4372519 4,
   FloatLit 4684008 4, FloatLit 4244353 4, FloatLit 4879794 4, FloatLit 5098284 4,
   FloatLit 5063473 4, FloatLit 3401842 4, FloatLit 2402589 4, FloatLit 2190328 4,
   FloatLit 1720747 4, FloatLit 2525901 4, FloatLit 2210711 4, FloatLit 2765188 4,
   FloatLit 2711480 4, FloatLit 3426186 4, FloatLit 4283558 4, FloatLit 4423946 4,
   FloatLit 4327851 4, FloatLit 4372497 4, FloatLit 4372092 4, FloatLit 4453641 4,
   FloatLit 4531950 4, FloatLit 4544096 4, FloatLit 4223789 4, FloatLit 4560371 4,
   FloatLit 4403866 4, FloatLit 4251944 4, FloatLit 4862052 4, FloatLit 5004291 4,
   FloatLit 5212759 4, FloatLit 5089476 4, FloatLit 4888889 4, FloatLit 5098706 4,
   FloatLit 4567229 4, FloatLit 4738166 4, FloatLit 5259509 4, FloatLit 5498338 4,
   FloatLit 5423405 4
  ]"

text \<open>The elements of the list literal bound to \<^verbatim>\<open>austourists_data\<close> (lines 200 to 218).\<close>

definition austourists_data :: "expr list" where
  "austourists_data = [
   FloatLit 3005251300 8, FloatLit 1914849600 8, FloatLit 2531769200 8, FloatLit 2759143700 8,
   FloatLit 3207645600 8, FloatLit 2348796100 8, FloatLit 2847594000 8, FloatLit 3512375300 8,
   FloatLit 3683848500 8, FloatLit 2500701700 8, FloatLit 3072223000 8, FloatLit 2869375900 8,
   FloatLit 3664098600 8, FloatLit 2382460900 8, FloatLit 2931168300 8, FloatLit 3177030900 8,
   FloatLit 3517787700 8, FloatLit 1977524400 8, FloatLit 2960175000 8, FloatLit 3453884200 8,
   FloatLit 4127359900 8, FloatLit 2665586200 8, FloatLit 2827985900 8, FloatLit 3519115300 8,
   FloatLit 4220566386 8, FloatLit 2464917133 8, FloatLit 3266733514 8, FloatLit 3725735401 8,
   FloatLit 4524246027 8, FloatLit 2935048127 8, FloatLit 3634420728 8, FloatLit 4178208136 8,
   FloatLit 4927659843 8, FloatLit 3127540139 8, FloatLit 3785062549 8, FloatLit 3883704413 8,
   FloatLit 5123690034 8, FloatLit 3183855162 8, FloatLit 4132342126 8, FloatLit 4279900337 8,
   FloatLit 5570835836 8, FloatLit 3340714492 8, FloatLit 4231663797 8, FloatLit 4515712257 8,
   FloatLit 5957607996 8, FloatLit 3483733016 8, FloatLit 4484168072 8, FloatLit 4697124960 8,
   FloatLit 6001903094 8, FloatLit 3837117851 8, FloatLit 4697586413 8, FloatLit 5073379646 8,
   FloatLit 6164687319 8, FloatLit 3929956937 8, FloatLit 5267120908 8, FloatLit 5433231689 8,
   FloatLit 6683435838 8, FloatLit 4087118847 8, FloatLit 5182853579 8, FloatLit 5749190993 8,
   FloatLit 6525146985 8, FloatLit 4306120822 8, FloatLit 5476075713 8, FloatLit 5983447494 8,
   FloatLit 7325702747 8, FloatLit 4769662373 8, FloatLit 6109776802 8, FloatLit 6605576122 8
  ]"

fun is_float_lit :: "expr \<Rightarrow> bool" where
  "is_float_lit (FloatLit m d) = True"
| "is_float_lit (USub (FloatLit m d)) = True"
| "is_float_lit e = False"

subsection \<open>The cells\<close>

text \<open>
  Each code cell is named after what it does and carries the source lines it
  transcribes. A trailing \<^verbatim>\<open>;\<close> only suppresses the echo of the value and is
  not kept. The two lists of R parameters in the oil section are written out twice,
  as in the source.
\<close>

text \<open>Lines 29 to 33.\<close>

definition cell_imports :: "stmt list" where
  "cell_imports = [
     Import ''numpy'' ''np'',
     Import ''matplotlib.pyplot'' ''plt'',
     Import ''pandas'' ''pd'',
     Magic ''matplotlib inline'',
     ImportFrom ''statsmodels.tsa.exponential_smoothing.ets'' ''ETSModel'']"

text \<open>Line 42.\<close>

definition cell_figsize :: "stmt list" where
  "cell_figsize = [
     Assign (Subscript (Attr (Name ''plt'') ''rcParams'') (Str ''figure.figsize''))
            (TupleE [IntLit 12, IntLit 8])]"

text \<open>Lines 74 to 91.\<close>

definition cell_oil :: "stmt list" where
  "cell_oil = [
     Assign (Name ''oildata'') (ListE oildata),
     Assign (Name ''oil'')
       (Call (Attr (Name ''pd'') ''Series'') [Name ''oildata'']
          [(''index'', Call (Attr (Name ''pd'') ''date_range'') [Str ''1965'', Str ''2013'']
                         [(''freq'', Str ''AS'')])]),
     ExprStmt (Call (Attr (Name ''oil'') ''plot'') [] []),
     ExprStmt (Call (Attr (Name ''plt'') ''ylabel'')
                 [Str ''Annual oil production in Saudi Arabia (Mt)''] [])]"

text \<open>Lines 108 to 119.\<close>

definition cell_oil_fit :: "stmt list" where
  "cell_oil_fit = [
     Assign (Name ''model'')
       (Call (Name ''ETSModel'') [Name ''oil'']
          [(''error'', Str ''add''), (''trend'', Str ''add''), (''damped_trend'', BoolLit True)]),
     Assign (Name ''fit'') (Call (Attr (Name ''model'') ''fit'') [] [(''maxiter'', IntLit 10000)]),
     ExprStmt (Call (Attr (Name ''oil'') ''plot'') [] [(''label'', Str ''data'')]),
     ExprStmt (Call (Attr (Attr (Name ''fit'') ''fittedvalues'') ''plot'') []
                 [(''label'', Str ''statsmodels fit'')]),
     ExprStmt (Call (Attr (Name ''plt'') ''ylabel'')
                 [Str ''Annual oil production in Saudi Arabia (Mt)''] []),
     Assign (Name ''params_R'')
       (ListE [FloatLit 99989969 8, FloatLit 11888177503085334 17, FloatLit 80000197 8,
               FloatLit 3646466837 8, FloatLit 3472584983 8]),
     Assign (Name ''yhat'')
       (Attr (Call (Attr (Name ''model'') ''smooth'') [Name ''params_R''] []) ''fittedvalues''),
     ExprStmt (Call (Attr (Name ''yhat'') ''plot'') []
                 [(''label'', Str ''R fit''), (''linestyle'', Str ''--'')]),
     ExprStmt (Call (Attr (Name ''plt'') ''legend'') [] [])]"

text \<open>Lines 135 to 148.\<close>

definition cell_oil_heuristic :: "stmt list" where
  "cell_oil_heuristic = [
     Assign (Name ''model_heuristic'')
       (Call (Name ''ETSModel'') [Name ''oil'']
          [(''error'', Str ''add''), (''trend'', Str ''add''), (''damped_trend'', BoolLit True),
           (''initialization_method'', Str ''heuristic'')]),
     Assign (Name ''fit_heuristic'') (Call (Attr (Name ''model_heuristic'') ''fit'') [] []),
     ExprStmt (Call (Attr (Name ''oil'') ''plot'') [] [(''label'', Str ''data'')]),
     ExprStmt (Call (Attr (Attr (Name ''fit'') ''fittedvalues'') ''plot'') []
                 [(''label'', Str ''estimated'')]),
     ExprStmt (Call (Attr (Attr (Name ''fit_heuristic'') ''fittedvalues'') ''plot'') []
                 [(''label'', Str ''heuristic''), (''linestyle'', Str ''--'')]),
     ExprStmt (Call (Attr (Name ''plt'') ''ylabel'')
                 [Str ''Annual oil production in Saudi Arabia (Mt)''] []),
     Assign (Name ''params'')
       (ListE [FloatLit 99989969 8, FloatLit 11888177503085334 17, FloatLit 80000197 8,
               FloatLit 3646466837 8, FloatLit 3472584983 8]),
     Assign (Name ''yhat'')
       (Attr (Call (Attr (Name ''model'') ''smooth'') [Name ''params''] []) ''fittedvalues''),
     ExprStmt (Call (Attr (Name ''yhat'') ''plot'') []
                 [(''label'', Str ''with R params''), (''linestyle'', Str '':'')]),
     ExprStmt (Call (Attr (Name ''plt'') ''legend'') [] [])]"

text \<open>Line 165.\<close>

definition cell_summary_fit :: "stmt list" where
  "cell_summary_fit = [ExprStmt (Call (Attr (Name ''fit'') ''summary'') [] [])]"

text \<open>Line 174.\<close>

definition cell_summary_heuristic :: "stmt list" where
  "cell_summary_heuristic = [ExprStmt (Call (Attr (Name ''fit_heuristic'') ''summary'') [] [])]"

text \<open>Lines 200 to 222.\<close>

definition cell_austourists :: "stmt list" where
  "cell_austourists = [
     Assign (Name ''austourists_data'') (ListE austourists_data),
     Assign (Name ''index'')
       (Call (Attr (Name ''pd'') ''date_range'') [Str ''1999-03-01'', Str ''2015-12-01'']
          [(''freq'', Str ''3MS'')]),
     Assign (Name ''austourists'')
       (Call (Attr (Name ''pd'') ''Series'') [Name ''austourists_data'']
          [(''index'', Name ''index'')]),
     ExprStmt (Call (Attr (Name ''austourists'') ''plot'') [] []),
     ExprStmt (Call (Attr (Name ''plt'') ''ylabel'') [Str ''Australian Tourists''] [])]"

text \<open>Lines 231 to 248.\<close>

definition cell_holt_winters :: "stmt list" where
  "cell_holt_winters = [
     Assign (Name ''model'')
       (Call (Name ''ETSModel'') [Name ''austourists'']
          [(''error'', Str ''add''), (''trend'', Str ''add''), (''seasonal'', Str ''add''),
           (''damped_trend'', BoolLit True), (''seasonal_periods'', IntLit 4)]),
     Assign (Name ''fit'') (Call (Attr (Name ''model'') ''fit'') [] []),
     Assign (Name ''params_R'')
       (ListE [FloatLit 35445427 8, FloatLit 3200749 8, FloatLit 39993387 8,
               FloatLit 97999997 8, FloatLit 2401278357 8, FloatLit 97770147 8,
               FloatLit 176951063 8, USub (FloatLit 50735902 8), USub (FloatLit 661171798 8),
               FloatLit 534956637 8]),
     Assign (Name ''fit_R'') (Call (Attr (Name ''model'') ''smooth'') [Name ''params_R''] []),
     ExprStmt (Call (Attr (Name ''austourists'') ''plot'') [] [(''label'', Str ''data'')]),
     ExprStmt (Call (Attr (Name ''plt'') ''ylabel'') [Str ''Australian Tourists''] []),
     ExprStmt (Call (Attr (Attr (Name ''fit'') ''fittedvalues'') ''plot'') []
                 [(''label'', Str ''statsmodels fit'')]),
     ExprStmt (Call (Attr (Attr (Name ''fit_R'') ''fittedvalues'') ''plot'') []
                 [(''label'', Str ''R fit''), (''linestyle'', Str ''--'')]),
     ExprStmt (Call (Attr (Name ''plt'') ''legend'') [] [])]"

text \<open>Line 257.\<close>

definition cell_summary_holt_winters :: "stmt list" where
  "cell_summary_holt_winters = [ExprStmt (Call (Attr (Name ''fit'') ''summary'') [] [])]"

text \<open>Line 281.\<close>

definition cell_get_prediction :: "stmt list" where
  "cell_get_prediction = [
     Assign (Name ''pred'')
       (Call (Attr (Name ''fit'') ''get_prediction'') []
          [(''start'', Str ''2014''), (''end'', Str ''2020'')])]"

text \<open>Lines 290 and 291.\<close>

definition cell_summary_frame :: "stmt list" where
  "cell_summary_frame = [
     Assign (Name ''df'')
       (Call (Attr (Name ''pred'') ''summary_frame'') [] [(''alpha'', FloatLit 5 2)]),
     ExprStmt (Name ''df'')]"

text \<open>Line 309.\<close>

definition cell_simulate :: "stmt list" where
  "cell_simulate = [
     Assign (Name ''simulated'')
       (Call (Attr (Name ''fit'') ''simulate'') []
          [(''anchor'', Str ''end''), (''nsimulations'', IntLit 17),
           (''repetitions'', IntLit 100)])]"

text \<open>
  Lines 318 to 324: the loop over the columns of the simulated frame with its body
  \<open>plot_column\<close>, then the five statements \<open>plot_summary\<close>.
\<close>

definition plot_column :: "stmt list" where
  "plot_column = [
     ExprStmt (Call (Attr (Subscript (Attr (Name ''simulated'') ''iloc'')
                             (TupleE [SliceAll, Name ''i''])) ''plot'') []
                 [(''label'', Str ''_''), (''color'', Str ''gray''), (''alpha'', FloatLit 1 1)])]"

definition plot_summary :: "stmt list" where
  "plot_summary = [
     ExprStmt (Call (Attr (Subscript (Name ''df'') (Str ''mean'')) ''plot'') []
                 [(''label'', Str ''mean prediction'')]),
     ExprStmt (Call (Attr (Subscript (Name ''df'') (Str ''pi_lower'')) ''plot'') []
                 [(''linestyle'', Str ''--''), (''color'', Str ''tab:blue''),
                  (''label'', Str ''95% interval'')]),
     ExprStmt (Call (Attr (Subscript (Name ''df'') (Str ''pi_upper'')) ''plot'') []
                 [(''linestyle'', Str ''--''), (''color'', Str ''tab:blue''),
                  (''label'', Str ''_'')]),
     ExprStmt (Call (Attr (Attr (Name ''pred'') ''endog'') ''plot'') []
                 [(''label'', Str ''data'')]),
     ExprStmt (Call (Attr (Name ''plt'') ''legend'') [] [])]"

definition cell_plot_simulations :: "stmt list" where
  "cell_plot_simulations =
     For ''i'' (Call (Name ''range'')
                  [Subscript (Attr (Name ''simulated'') ''shape'') (IntLit 1)] [])
       plot_column
     # plot_summary"

text \<open>
  The notebook: its 24 cells in order. A markdown cell keeps its heading or first
  words only; its text plays no part in execution.
\<close>

definition notebook :: "cell list" where
  "notebook = [
     Markdown ''# ETS models'',
     Code cell_imports,
     Code cell_figsize,
     Markdown ''## Simple exponential smoothing'',
     Code cell_oil,
     Markdown ''The plot above shows annual oil production'',
     Code cell_oil_fit,
     Markdown ''By default the initial states are considered to be fitting parameters'',
     Code cell_oil_heuristic,
     Markdown ''The fitted parameters and some other measures are shown'',
     Code cell_summary_fit,
     Code cell_summary_heuristic,
     Markdown ''## Holt-Winters seasonal method'',
     Code cell_austourists,
     Code cell_holt_winters,
     Code cell_summary_holt_winters,
     Markdown ''## Predictions'',
     Code cell_get_prediction,
     Code cell_summary_frame,
     Markdown ''In this case the prediction intervals were calculated'',
     Code cell_simulate,
     Code cell_plot_simulations,
     Markdown ''In this case, we chose end as simulation anchor'',
     Code []]"

section \<open>The two pandas calls that build the series\<close>

text \<open>
  \<^verbatim>\<open>pd.date_range\<close> and \<^verbatim>\<open>pd.Series\<close> belong to pandas, not to this repository.
  The length and the order of the two indexes depend on what these calls
  return, so the part of their documented behaviour that the notebook exercises is
  written out: a start and an end given as \<^verbatim>\<open>YYYY\<close> or \<^verbatim>\<open>YYYY-MM-DD\<close>, and a
  frequency \<^verbatim>\<open>MS\<close> (month start) or \<^verbatim>\<open>AS\<close> (year start, anchored in January) with
  an optional multiplier. Anything else is reported as an error of the model rather
  than given a meaning.
\<close>

record timestamp =
  year :: nat
  month :: nat
  day :: nat

datatype freq = MonthBegin nat | YearBegin nat

datatype pd_error = BadDate string | BadFreq string | LengthMismatch nat nat

definition digit_val :: "char \<Rightarrow> nat option" where
  "digit_val = map_of [(CHR ''0'', 0), (CHR ''1'', 1), (CHR ''2'', 2), (CHR ''3'', 3),
     (CHR ''4'', 4), (CHR ''5'', 5), (CHR ''6'', 6), (CHR ''7'', 7), (CHR ''8'', 8),
     (CHR ''9'', 9)]"

fun parse_digits :: "nat \<Rightarrow> string \<Rightarrow> nat option" where
  "parse_digits acc [] = Some acc"
| "parse_digits acc (c # cs) =
     (case digit_val c of None \<Rightarrow> None | Some d \<Rightarrow> parse_digits (10 * acc + d) cs)"

definition parse_nat :: "string \<Rightarrow> nat option" where
  "parse_nat s = (if s = [] then None else parse_digits 0 s)"

fun split_on :: "char \<Rightarrow> string \<Rightarrow> string list" where
  "split_on c [] = [[]]"
| "split_on c (x # xs) =
     (if x = c then [] # split_on c xs
      else (case split_on c xs of [] \<Rightarrow> [[x]] | w # ws \<Rightarrow> (x # w) # ws))"

definition leap_year :: "nat \<Rightarrow> bool" where
  "leap_year y =
     (if y mod 400 = 0 then True else if y mod 100 = 0 then False else y mod 4 = 0)"

definition days_in_month :: "nat \<Rightarrow> nat \<Rightarrow> nat" where
  "days_in_month y m =
     (if m = 2 then (if leap_year y then 29 else 28)
      else if m = 4 \<or> m = 6 \<or> m = 9 \<or> m = 11 then 30 else 31)"

text \<open>A year alone stands for its first of January.\<close>

definition parse_timestamp :: "string \<Rightarrow> timestamp option" where
  "parse_timestamp s =
     (case map parse_nat (split_on CHR ''-'' s) of
        [Some y] \<Rightarrow> Some \<lparr>year = y, month = 1, day = 1\<rparr>
      | [Some y, Some m, Some d] \<Rightarrow>
          (if 1 \<le> m \<and> m \<le> 12 \<and> 1 \<le> d \<and> d \<le> days_in_month y m
           then Some \<lparr>year = y, month = m, day = d\<rparr> else None)
      | _ \<Rightarrow> None)"

definition parse_freq :: "string \<Rightarrow> freq option" where
  "parse_freq s =
     (let ds = takeWhile (\<lambda>c. digit_val c \<noteq> None) s;
          unit = dropWhile (\<lambda>c. digit_val c \<noteq> None) s
      in case (if ds = [] then Some 1 else parse_nat ds) of
           None \<Rightarrow> None
         | Some n \<Rightarrow>
             (if n = 0 then None
              else if unit = ''MS'' then Some (MonthBegin n)
              else if unit = ''AS'' then Some (YearBegin n)
              else None))"

text \<open>Months are counted from year 0; every generated date is the first of its month.\<close>

definition month_index :: "timestamp \<Rightarrow> nat" where
  "month_index t = 12 * year t + (month t - 1)"

definition of_month_index :: "nat \<Rightarrow> timestamp" where
  "of_month_index i = \<lparr>year = i div 12, month = i mod 12 + 1, day = 1\<rparr>"

text \<open>The first date on the offset that is not before the start.\<close>

fun first_on_offset :: "freq \<Rightarrow> timestamp \<Rightarrow> nat" where
  "first_on_offset (MonthBegin n) t =
     (if day t = 1 then month_index t else month_index t + 1)"
| "first_on_offset (YearBegin n) t =
     (if month t = 1 \<and> day t = 1 then 12 * year t else 12 * (year t + 1))"

fun step_months :: "freq \<Rightarrow> nat" where
  "step_months (MonthBegin n) = n"
| "step_months (YearBegin n) = 12 * n"

text \<open>
  The dates from the first one on the offset, one step apart, while they are not after
  the end. The end is a day of its month, so a first of a month is not after it exactly
  when its month is not after the end's month. A step of zero months is excluded by
  \<open>parse_freq\<close>; the guard keeps the function total.
\<close>

function month_starts :: "nat \<Rightarrow> nat \<Rightarrow> nat \<Rightarrow> timestamp list" where
  "month_starts cur hi step =
     (if hi < cur \<or> step = 0 then []
      else of_month_index cur # month_starts (cur + step) hi step)"
  by pat_completeness auto
termination
  by (relation "measure (\<lambda>(cur, hi, step). Suc hi - cur)") auto

declare month_starts.simps [simp del]

definition date_range :: "string \<Rightarrow> string \<Rightarrow> string \<Rightarrow> pd_error + timestamp list" where
  "date_range start stop fr =
     (case parse_timestamp start of
        None \<Rightarrow> Inl (BadDate start)
      | Some a \<Rightarrow>
          (case parse_timestamp stop of
             None \<Rightarrow> Inl (BadDate stop)
           | Some b \<Rightarrow>
               (case parse_freq fr of
                  None \<Rightarrow> Inl (BadFreq fr)
                | Some f \<Rightarrow>
                    Inr (month_starts (first_on_offset f a) (month_index b) (step_months f)))))"

text \<open>
  A series pairs the data with the index; pandas raises \<^verbatim>\<open>ValueError\<close> when their
  lengths differ.
\<close>

record 'a series =
  series_values :: "'a list"
  series_index :: "timestamp list"

definition Series :: "'a list \<Rightarrow> timestamp list \<Rightarrow> pd_error + 'a series" where
  "Series data idx =
     (if length data = length idx then Inr \<lparr>series_values = data, series_index = idx\<rparr>
      else Inl (LengthMismatch (length data) (length idx)))"

text \<open>Line 89: \<^verbatim>\<open>oil = pd.Series(oildata, index=pd.date_range('1965', '2013', freq='AS'))\<close>.\<close>

definition oil :: "pd_error + expr series" where
  "oil = (case date_range ''1965'' ''2013'' ''AS'' of
            Inl e \<Rightarrow> Inl e
          | Inr idx \<Rightarrow> Series oildata idx)"

text \<open>
  Lines 219 and 220: \<^verbatim>\<open>index = pd.date_range("1999-03-01", "2015-12-01", freq="3MS")\<close>
  and \<^verbatim>\<open>austourists = pd.Series(austourists_data, index=index)\<close>.
\<close>

definition index :: "pd_error + timestamp list" where
  "index = date_range ''1999-03-01'' ''2015-12-01'' ''3MS''"

definition austourists :: "pd_error + expr series" where
  "austourists = (case index of
                    Inl e \<Rightarrow> Inl e
                  | Inr idx \<Rightarrow> Series austourists_data idx)"

section \<open>Running the notebook\<close>

text \<open>
  Everything the notebook computes, it computes by calling numpy, pandas, matplotlib
  and statsmodels. The interpreter therefore runs the Python of the cells (names,
  literals, lists, tuples, assignments, the loop, the order of evaluation) and treats
  every library object as opaque: a call on a library object is recorded in a trace
  and returns a fresh object \<open>VObj n\<close>, where \<open>n\<close> is the position of the call in
  the trace. Reading an attribute or an item of a library object yields the path
  \<open>VAttr\<close> or \<open>VItem\<close> and is not recorded in the trace.

  Whatever runs code of a library can raise: an import, the magic, a read of an
  attribute or of an item of a library object, a call, a store into a library object,
  and the conversion of a library value to the integer \<^verbatim>\<open>range\<close> needs. Each of these
  is an interaction with the libraries. The state counts them, and the libraries
  decide for each number whether that interaction raises.
\<close>

datatype val =
    VInt int
  | VFloat int nat
  | VStr string
  | VBool bool
  | VList "val list"
  | VTuple "val list"
  | VSliceAll
  | VBuiltin string
  | VModule string
  | VImported string string
  | VObj nat
  | VAttr val string
  | VItem val val

datatype event =
    EImport string
  | EMagic string
  | EBind string val
  | ESetItem val val val
  | ECall val "val list" "(string \<times> val) list"

text \<open>
  \<open>Raised n\<close>: the interaction number \<open>n\<close> with the libraries raised. The three
  Python errors are those the evaluated fragment can raise by itself. \<open>Unsupported\<close>
  marks Python outside the fragment; it is not an exception of the program.
\<close>

datatype error = Raised nat | NameError string | TypeError | IndexError | Unsupported

record state =
  env :: "(string \<times> val) list"
  trace :: "event list"
  ticks :: nat

text \<open>
  What the libraries decide: whether the interaction of a given number raises, and
  which integer a library value stands for when Python's \<^verbatim>\<open>range\<close> asks for it.
\<close>

record lib =
  raises :: "nat \<Rightarrow> bool"
  int_value :: "val \<Rightarrow> int"

type_synonym 'a result = "(error \<times> state) + ('a \<times> state)"

definition init :: state where
  "init = \<lparr>env = [], trace = [], ticks = 0\<rparr>"

definition builtins :: "string list" where
  "builtins = [''range'']"

fun bind :: "string \<Rightarrow> val \<Rightarrow> (string \<times> val) list \<Rightarrow> (string \<times> val) list" where
  "bind x v [] = [(x, v)]"
| "bind x v ((y, w) # bs) = (if x = y then (x, v) # bs else (y, w) # bind x v bs)"

definition log :: "event \<Rightarrow> state \<Rightarrow> state" where
  "log e s = s\<lparr>trace := trace s @ [e]\<rparr>"

fun is_library :: "val \<Rightarrow> bool" where
  "is_library (VModule m) = True"
| "is_library (VImported m n) = True"
| "is_library (VObj n) = True"
| "is_library (VAttr v a) = True"
| "is_library (VItem v i) = True"
| "is_library v = False"

text \<open>One interaction: it is counted, and raises or returns as the libraries decide.\<close>

definition interact :: "lib \<Rightarrow> state \<Rightarrow> (error \<times> state) + state" where
  "interact L s =
     (if raises L (ticks s) then Inl (Raised (ticks s), s\<lparr>ticks := Suc (ticks s)\<rparr>)
      else Inr (s\<lparr>ticks := Suc (ticks s)\<rparr>))"

text \<open>
  A call or a store is recorded in the trace, then runs; its result is the object
  named after the position of the record.
\<close>

definition library_op :: "lib \<Rightarrow> event \<Rightarrow> state \<Rightarrow> val result" where
  "library_op L e s =
     (case interact L (log e s) of
        Inl err \<Rightarrow> Inl err
      | Inr s1 \<Rightarrow> Inr (VObj (length (trace s)), s1))"

text \<open>A read of an attribute or an item of a library object runs code of the library.\<close>

definition library_read :: "lib \<Rightarrow> val \<Rightarrow> state \<Rightarrow> val result" where
  "library_read L v s =
     (case interact L s of Inl err \<Rightarrow> Inl err | Inr s1 \<Rightarrow> Inr (v, s1))"

definition py_range :: "lib \<Rightarrow> val list \<Rightarrow> (string \<times> val) list \<Rightarrow> state \<Rightarrow> val result" where
  "py_range L vs kvs s =
     (case (vs, kvs) of
        ([VInt n], []) \<Rightarrow> Inr (VList (map (\<lambda>k. VInt (int k)) [0..<nat n]), s)
      | ([v], []) \<Rightarrow>
          (if is_library v
           then library_read L (VList (map (\<lambda>k. VInt (int k)) [0..<nat (int_value L v)])) s
           else Inl (TypeError, s))
      | _ \<Rightarrow> Inl (Unsupported, s))"

definition call :: "lib \<Rightarrow> val \<Rightarrow> val list \<Rightarrow> (string \<times> val) list \<Rightarrow> state \<Rightarrow> val result" where
  "call L fv vs kvs s =
     (if fv = VBuiltin ''range'' then py_range L vs kvs s
      else if is_library fv then library_op L (ECall fv vs kvs) s
      else Inl (TypeError, s))"

text \<open>
  An index into a Python list counts from the front when it is not negative and from
  the back when it is; outside the list Python raises \<^verbatim>\<open>IndexError\<close>.
\<close>

definition py_index :: "val list \<Rightarrow> int \<Rightarrow> val option" where
  "py_index xs i =
     (if 0 \<le> i \<and> i < int (length xs) then Some (xs ! nat i)
      else if i < 0 \<and> - i \<le> int (length xs) then Some (xs ! nat (int (length xs) + i))
      else None)"

definition subscript :: "lib \<Rightarrow> val \<Rightarrow> val \<Rightarrow> state \<Rightarrow> val result" where
  "subscript L v i s =
     (if is_library v then library_read L (VItem v i) s
      else (case (v, i) of
              (VList xs, VInt k) \<Rightarrow>
                (case py_index xs k of None \<Rightarrow> Inl (IndexError, s) | Some x \<Rightarrow> Inr (x, s))
            | (VTuple xs, VInt k) \<Rightarrow>
                (case py_index xs k of None \<Rightarrow> Inl (IndexError, s) | Some x \<Rightarrow> Inr (x, s))
            | _ \<Rightarrow> Inl (Unsupported, s)))"

definition negate :: "val \<Rightarrow> state \<Rightarrow> val result" where
  "negate v s =
     (case v of
        VInt n \<Rightarrow> Inr (VInt (- n), s)
      | VFloat m d \<Rightarrow> Inr (VFloat (- m) d, s)
      | _ \<Rightarrow> Inl (TypeError, s))"

text \<open>
  Python evaluates the callee, then the positional arguments from left to right, then
  the keyword arguments in the order written.
\<close>

fun eval :: "lib \<Rightarrow> expr \<Rightarrow> state \<Rightarrow> val result"
  and eval_list :: "lib \<Rightarrow> expr list \<Rightarrow> state \<Rightarrow> (val list) result"
  and eval_kwargs :: "lib \<Rightarrow> (string \<times> expr) list \<Rightarrow> state \<Rightarrow> ((string \<times> val) list) result"
where
  "eval L (Name x) s =
     (case map_of (env s) x of
        Some v \<Rightarrow> Inr (v, s)
      | None \<Rightarrow> if List.member builtins x then Inr (VBuiltin x, s) else Inl (NameError x, s))"
| "eval L (Attr e a) s =
     (case eval L e s of
        Inl err \<Rightarrow> Inl err
      | Inr (v, s1) \<Rightarrow>
          if is_library v then library_read L (VAttr v a) s1 else Inl (Unsupported, s1))"
| "eval L (Call f args kws) s =
     (case eval L f s of
        Inl err \<Rightarrow> Inl err
      | Inr (fv, s1) \<Rightarrow>
          (case eval_list L args s1 of
             Inl err \<Rightarrow> Inl err
           | Inr (vs, s2) \<Rightarrow>
               (case eval_kwargs L kws s2 of
                  Inl err \<Rightarrow> Inl err
                | Inr (kvs, s3) \<Rightarrow> call L fv vs kvs s3)))"
| "eval L (Subscript e i) s =
     (case eval L e s of
        Inl err \<Rightarrow> Inl err
      | Inr (v, s1) \<Rightarrow>
          (case eval L i s1 of
             Inl err \<Rightarrow> Inl err
           | Inr (iv, s2) \<Rightarrow> subscript L v iv s2))"
| "eval L (Str x) s = Inr (VStr x, s)"
| "eval L (IntLit n) s = Inr (VInt n, s)"
| "eval L (FloatLit m d) s = Inr (VFloat m d, s)"
| "eval L (BoolLit b) s = Inr (VBool b, s)"
| "eval L (ListE es) s =
     (case eval_list L es s of Inl err \<Rightarrow> Inl err | Inr (vs, s1) \<Rightarrow> Inr (VList vs, s1))"
| "eval L (TupleE es) s =
     (case eval_list L es s of Inl err \<Rightarrow> Inl err | Inr (vs, s1) \<Rightarrow> Inr (VTuple vs, s1))"
| "eval L SliceAll s = Inr (VSliceAll, s)"
| "eval L (USub e) s =
     (case eval L e s of Inl err \<Rightarrow> Inl err | Inr (v, s1) \<Rightarrow> negate v s1)"
| "eval_list L [] s = Inr ([], s)"
| "eval_list L (e # es) s =
     (case eval L e s of
        Inl err \<Rightarrow> Inl err
      | Inr (v, s1) \<Rightarrow>
          (case eval_list L es s1 of
             Inl err \<Rightarrow> Inl err
           | Inr (vs, s2) \<Rightarrow> Inr (v # vs, s2)))"
| "eval_kwargs L [] s = Inr ([], s)"
| "eval_kwargs L ((k, e) # kws) s =
     (case eval L e s of
        Inl err \<Rightarrow> Inl err
      | Inr (v, s1) \<Rightarrow>
          (case eval_kwargs L kws s1 of
             Inl err \<Rightarrow> Inl err
           | Inr (kvs, s2) \<Rightarrow> Inr ((k, v) # kvs, s2)))"

text \<open>
  An assignment evaluates its right-hand side first. A name is bound in the
  environment; an item of a library object is stored by the library, which is an
  operation of the library like a call.
\<close>

definition assign :: "lib \<Rightarrow> expr \<Rightarrow> expr \<Rightarrow> state \<Rightarrow> (error \<times> state) + state" where
  "assign L target e s =
     (case eval L e s of
        Inl err \<Rightarrow> Inl err
      | Inr (v, s1) \<Rightarrow>
          (case target of
             Name x \<Rightarrow> Inr (log (EBind x v) (s1\<lparr>env := bind x v (env s1)\<rparr>))
           | Subscript obj key \<Rightarrow>
               (case eval L obj s1 of
                  Inl err \<Rightarrow> Inl err
                | Inr (ov, s2) \<Rightarrow>
                    (case eval L key s2 of
                       Inl err \<Rightarrow> Inl err
                     | Inr (kv, s3) \<Rightarrow>
                         (if is_library ov
                          then (case library_op L (ESetItem ov kv v) s3 of
                                  Inl err \<Rightarrow> Inl err
                                | Inr (r, s4) \<Rightarrow> Inr s4)
                          else Inl (Unsupported, s3))))
           | _ \<Rightarrow> Inl (Unsupported, s1)))"

definition truthy :: "val \<Rightarrow> bool option" where
  "truthy v =
     (case v of
        VBool b \<Rightarrow> Some b
      | VInt n \<Rightarrow> Some (n \<noteq> 0)
      | VStr x \<Rightarrow> Some (x \<noteq> [])
      | VList xs \<Rightarrow> Some (xs \<noteq> [])
      | VTuple xs \<Rightarrow> Some (xs \<noteq> [])
      | _ \<Rightarrow> None)"

text \<open>
  Statements. An import and a magic are recorded, then run code of a library. A
  handler catches whatever its body raised and runs from the state the body left. \<^verbatim>\<open>while\<close>, \<^verbatim>\<open>def\<close> and \<^verbatim>\<open>class\<close> are outside the fragment.
\<close>

fun exec :: "lib \<Rightarrow> stmt \<Rightarrow> state \<Rightarrow> (error \<times> state) + state"
  and exec_block :: "lib \<Rightarrow> stmt list \<Rightarrow> state \<Rightarrow> (error \<times> state) + state"
  and exec_for :: "lib \<Rightarrow> string \<Rightarrow> val list \<Rightarrow> stmt list \<Rightarrow> state \<Rightarrow> (error \<times> state) + state"
where
  "exec L (Import m a) s =
     (case interact L (log (EImport m) s) of
        Inl err \<Rightarrow> Inl err
      | Inr s1 \<Rightarrow> Inr (s1\<lparr>env := bind a (VModule m) (env s1)\<rparr>))"
| "exec L (ImportFrom m n) s =
     (case interact L (log (EImport m) s) of
        Inl err \<Rightarrow> Inl err
      | Inr s1 \<Rightarrow> Inr (s1\<lparr>env := bind n (VImported m n) (env s1)\<rparr>))"
| "exec L (Magic m) s = interact L (log (EMagic m) s)"
| "exec L (Assign target e) s = assign L target e s"
| "exec L (ExprStmt e) s =
     (case eval L e s of Inl err \<Rightarrow> Inl err | Inr (v, s1) \<Rightarrow> Inr s1)"
| "exec L (For x e body) s =
     (case eval L e s of
        Inl err \<Rightarrow> Inl err
      | Inr (v, s1) \<Rightarrow>
          (case v of
             VList vs \<Rightarrow> exec_for L x vs body s1
           | VTuple vs \<Rightarrow> exec_for L x vs body s1
           | _ \<Rightarrow> Inl (Unsupported, s1)))"
| "exec L (Try body handler) s =
     (case exec_block L body s of
        Inr s1 \<Rightarrow> Inr s1
      | Inl (err, s1) \<Rightarrow>
          if err = Unsupported then Inl (err, s1) else exec_block L handler s1)"
| "exec L (IfStmt c thn els) s =
     (case eval L c s of
        Inl err \<Rightarrow> Inl err
      | Inr (v, s1) \<Rightarrow>
          (case truthy v of
             None \<Rightarrow> Inl (Unsupported, s1)
           | Some b \<Rightarrow> if b then exec_block L thn s1 else exec_block L els s1))"
| "exec L (While c body) s = Inl (Unsupported, s)"
| "exec L (FunctionDef f body) s = Inl (Unsupported, s)"
| "exec L (ClassDef c body) s = Inl (Unsupported, s)"
| "exec_block L [] s = Inr s"
| "exec_block L (st # sts) s =
     (case exec L st s of Inl err \<Rightarrow> Inl err | Inr s1 \<Rightarrow> exec_block L sts s1)"
| "exec_for L x [] body s = Inr s"
| "exec_for L x (v # vs) body s =
     (case exec_block L body (log (EBind x v) (s\<lparr>env := bind x v (env s)\<rparr>)) of
        Inl err \<Rightarrow> Inl err
      | Inr s1 \<Rightarrow> exec_for L x vs body s1)"

text \<open>
  Running all cells from the top: the first error ends the run, and the cells after it
  are not executed.
\<close>

fun exec_cell :: "lib \<Rightarrow> cell \<Rightarrow> state \<Rightarrow> (error \<times> state) + state" where
  "exec_cell L (Markdown t) s = Inr s"
| "exec_cell L (Code sts) s = exec_block L sts s"

fun run_cells :: "lib \<Rightarrow> cell list \<Rightarrow> state \<Rightarrow> (error \<times> state) + state" where
  "run_cells L [] s = Inr s"
| "run_cells L (c # cs) s =
     (case exec_cell L c s of Inl err \<Rightarrow> Inl err | Inr s1 \<Rightarrow> run_cells L cs s1)"

definition run :: "lib \<Rightarrow> cell list \<Rightarrow> (error \<times> state) + state" where
  "run L nb = run_cells L nb init"

text \<open>A library in which no interaction numbered from \<open>a\<close> up to \<open>b\<close> raises.\<close>

definition quiet :: "lib \<Rightarrow> nat \<Rightarrow> nat \<Rightarrow> bool" where
  "quiet L a b = list_all (\<lambda>k. \<not> raises L k) [a..<b]"

text \<open>A library in which no interaction raises.\<close>

definition normal :: "(val \<Rightarrow> int) \<Rightarrow> lib" where
  "normal iv = \<lparr>raises = (\<lambda>n. False), int_value = iv\<rparr>"

section \<open>The trace of a run\<close>

text \<open>
  What a run without failures records, cell by cell. The numbers in \<open>VObj\<close> are
  positions in the whole trace: the series \<^verbatim>\<open>oil\<close> is the result of the call at
  position 8, the first model that of the call at position 12, and so on. That the
  interpreter produces exactly these events is proved below, not assumed.
\<close>

fun float_val :: "expr \<Rightarrow> val option" where
  "float_val (FloatLit m d) = Some (VFloat m d)"
| "float_val (USub (FloatLit m d)) = Some (VFloat (- m) d)"
| "float_val e = None"

definition oildata_values :: "val list" where
  "oildata_values = List.map_filter float_val oildata"

definition austourists_values :: "val list" where
  "austourists_values = List.map_filter float_val austourists_data"

definition oil_params :: "val list" where
  "oil_params = [VFloat 99989969 8, VFloat 11888177503085334 17, VFloat 80000197 8,
     VFloat 3646466837 8, VFloat 3472584983 8]"

definition holt_winters_params :: "val list" where
  "holt_winters_params = [VFloat 35445427 8, VFloat 3200749 8, VFloat 39993387 8,
     VFloat 97999997 8, VFloat 2401278357 8, VFloat 97770147 8, VFloat 176951063 8,
     VFloat (- 50735902) 8, VFloat (- 661171798) 8, VFloat 534956637 8]"

text \<open>Positions 0 to 4.\<close>

definition trace_imports :: "event list" where
  "trace_imports = [
     EImport ''numpy'',
     EImport ''matplotlib.pyplot'',
     EImport ''pandas'',
     EMagic ''matplotlib inline'',
     EImport ''statsmodels.tsa.exponential_smoothing.ets'']"

text \<open>Position 5.\<close>

definition trace_figsize :: "event list" where
  "trace_figsize = [
     ESetItem (VAttr (VModule ''matplotlib.pyplot'') ''rcParams'') (VStr ''figure.figsize'')
       (VTuple [VInt 12, VInt 8])]"

text \<open>Positions 6 to 11.\<close>

definition trace_oil :: "event list" where
  "trace_oil = [
     EBind ''oildata'' (VList oildata_values),
     ECall (VAttr (VModule ''pandas'') ''date_range'') [VStr ''1965'', VStr ''2013'']
       [(''freq'', VStr ''AS'')],
     ECall (VAttr (VModule ''pandas'') ''Series'') [VList oildata_values]
       [(''index'', VObj 7)],
     EBind ''oil'' (VObj 8),
     ECall (VAttr (VObj 8) ''plot'') [] [],
     ECall (VAttr (VModule ''matplotlib.pyplot'') ''ylabel'')
       [VStr ''Annual oil production in Saudi Arabia (Mt)''] []]"

text \<open>Positions 12 to 23.\<close>

definition trace_oil_fit :: "event list" where
  "trace_oil_fit = [
     ECall (VImported ''statsmodels.tsa.exponential_smoothing.ets'' ''ETSModel'') [VObj 8]
       [(''error'', VStr ''add''), (''trend'', VStr ''add''), (''damped_trend'', VBool True)],
     EBind ''model'' (VObj 12),
     ECall (VAttr (VObj 12) ''fit'') [] [(''maxiter'', VInt 10000)],
     EBind ''fit'' (VObj 14),
     ECall (VAttr (VObj 8) ''plot'') [] [(''label'', VStr ''data'')],
     ECall (VAttr (VAttr (VObj 14) ''fittedvalues'') ''plot'') []
       [(''label'', VStr ''statsmodels fit'')],
     ECall (VAttr (VModule ''matplotlib.pyplot'') ''ylabel'')
       [VStr ''Annual oil production in Saudi Arabia (Mt)''] [],
     EBind ''params_R'' (VList oil_params),
     ECall (VAttr (VObj 12) ''smooth'') [VList oil_params] [],
     EBind ''yhat'' (VAttr (VObj 20) ''fittedvalues''),
     ECall (VAttr (VAttr (VObj 20) ''fittedvalues'') ''plot'') []
       [(''label'', VStr ''R fit''), (''linestyle'', VStr ''--'')],
     ECall (VAttr (VModule ''matplotlib.pyplot'') ''legend'') [] []]"

text \<open>Positions 24 to 36.\<close>

definition trace_oil_heuristic :: "event list" where
  "trace_oil_heuristic = [
     ECall (VImported ''statsmodels.tsa.exponential_smoothing.ets'' ''ETSModel'') [VObj 8]
       [(''error'', VStr ''add''), (''trend'', VStr ''add''),
        (''damped_trend'', VBool True), (''initialization_method'', VStr ''heuristic'')],
     EBind ''model_heuristic'' (VObj 24),
     ECall (VAttr (VObj 24) ''fit'') [] [],
     EBind ''fit_heuristic'' (VObj 26),
     ECall (VAttr (VObj 8) ''plot'') [] [(''label'', VStr ''data'')],
     ECall (VAttr (VAttr (VObj 14) ''fittedvalues'') ''plot'') []
       [(''label'', VStr ''estimated'')],
     ECall (VAttr (VAttr (VObj 26) ''fittedvalues'') ''plot'') []
       [(''label'', VStr ''heuristic''), (''linestyle'', VStr ''--'')],
     ECall (VAttr (VModule ''matplotlib.pyplot'') ''ylabel'')
       [VStr ''Annual oil production in Saudi Arabia (Mt)''] [],
     EBind ''params'' (VList oil_params),
     ECall (VAttr (VObj 12) ''smooth'') [VList oil_params] [],
     EBind ''yhat'' (VAttr (VObj 33) ''fittedvalues''),
     ECall (VAttr (VAttr (VObj 33) ''fittedvalues'') ''plot'') []
       [(''label'', VStr ''with R params''), (''linestyle'', VStr '':'')],
     ECall (VAttr (VModule ''matplotlib.pyplot'') ''legend'') [] []]"

text \<open>Position 37.\<close>

definition trace_summary_fit :: "event list" where
  "trace_summary_fit = [
     ECall (VAttr (VObj 14) ''summary'') [] []]"

text \<open>Position 38.\<close>

definition trace_summary_heuristic :: "event list" where
  "trace_summary_heuristic = [
     ECall (VAttr (VObj 26) ''summary'') [] []]"

text \<open>Positions 39 to 45.\<close>

definition trace_austourists :: "event list" where
  "trace_austourists = [
     EBind ''austourists_data'' (VList austourists_values),
     ECall (VAttr (VModule ''pandas'') ''date_range'')
       [VStr ''1999-03-01'', VStr ''2015-12-01''] [(''freq'', VStr ''3MS'')],
     EBind ''index'' (VObj 40),
     ECall (VAttr (VModule ''pandas'') ''Series'') [VList austourists_values]
       [(''index'', VObj 40)],
     EBind ''austourists'' (VObj 42),
     ECall (VAttr (VObj 42) ''plot'') [] [],
     ECall (VAttr (VModule ''matplotlib.pyplot'') ''ylabel'') [VStr ''Australian Tourists'']
       []]"

text \<open>Positions 46 to 57.\<close>

definition trace_holt_winters :: "event list" where
  "trace_holt_winters = [
     ECall (VImported ''statsmodels.tsa.exponential_smoothing.ets'' ''ETSModel'') [VObj 42]
       [(''error'', VStr ''add''), (''trend'', VStr ''add''),
        (''seasonal'', VStr ''add''), (''damped_trend'', VBool True),
        (''seasonal_periods'', VInt 4)],
     EBind ''model'' (VObj 46),
     ECall (VAttr (VObj 46) ''fit'') [] [],
     EBind ''fit'' (VObj 48),
     EBind ''params_R'' (VList holt_winters_params),
     ECall (VAttr (VObj 46) ''smooth'') [VList holt_winters_params] [],
     EBind ''fit_R'' (VObj 51),
     ECall (VAttr (VObj 42) ''plot'') [] [(''label'', VStr ''data'')],
     ECall (VAttr (VModule ''matplotlib.pyplot'') ''ylabel'') [VStr ''Australian Tourists'']
       [],
     ECall (VAttr (VAttr (VObj 48) ''fittedvalues'') ''plot'') []
       [(''label'', VStr ''statsmodels fit'')],
     ECall (VAttr (VAttr (VObj 51) ''fittedvalues'') ''plot'') []
       [(''label'', VStr ''R fit''), (''linestyle'', VStr ''--'')],
     ECall (VAttr (VModule ''matplotlib.pyplot'') ''legend'') [] []]"

text \<open>Position 58.\<close>

definition trace_summary_holt_winters :: "event list" where
  "trace_summary_holt_winters = [
     ECall (VAttr (VObj 48) ''summary'') [] []]"

text \<open>Positions 59 to 60.\<close>

definition trace_get_prediction :: "event list" where
  "trace_get_prediction = [
     ECall (VAttr (VObj 48) ''get_prediction'') []
       [(''start'', VStr ''2014''), (''end'', VStr ''2020'')],
     EBind ''pred'' (VObj 59)]"

text \<open>Positions 61 to 62.\<close>

definition trace_summary_frame :: "event list" where
  "trace_summary_frame = [
     ECall (VAttr (VObj 59) ''summary_frame'') [] [(''alpha'', VFloat 5 2)],
     EBind ''df'' (VObj 61)]"

text \<open>Positions 63 to 64.\<close>

definition trace_simulate :: "event list" where
  "trace_simulate = [
     ECall (VAttr (VObj 48) ''simulate'') []
       [(''anchor'', VStr ''end''), (''nsimulations'', VInt 17), (''repetitions'', VInt 100)],
     EBind ''simulated'' (VObj 63)]"

definition main_trace :: "event list" where
  "main_trace =
     trace_imports @ trace_figsize @ trace_oil @ trace_oil_fit @
     trace_oil_heuristic @ trace_summary_fit @ trace_summary_heuristic @
     trace_austourists @ trace_holt_winters @ trace_summary_holt_winters @
     trace_get_prediction @ trace_summary_frame @ trace_simulate"

text \<open>
  The cell that plots the simulations records, for each column \<open>v\<close> of the simulated
  frame \<open>sim\<close>, the binding of the loop variable and the call of \<^verbatim>\<open>plot\<close>; then the
  five closing calls.
\<close>

definition column_events :: "val \<Rightarrow> val \<Rightarrow> event list" where
  "column_events sim v = [
     EBind ''i'' v,
     ECall (VAttr (VItem (VAttr sim ''iloc'') (VTuple [VSliceAll, v])) ''plot'') []
       [(''label'', VStr ''_''), (''color'', VStr ''gray''), (''alpha'', VFloat 1 1)]]"

definition columns :: "nat \<Rightarrow> val list" where
  "columns n = map (\<lambda>k. VInt (int k)) [0..<n]"

definition trace_columns :: "nat \<Rightarrow> event list" where
  "trace_columns n = concat (map (column_events (VObj 63)) (columns n))"

definition trace_closing :: "event list" where
  "trace_closing = [
     ECall (VAttr (VItem (VObj 61) (VStr ''mean'')) ''plot'') []
       [(''label'', VStr ''mean prediction'')],
     ECall (VAttr (VItem (VObj 61) (VStr ''pi_lower'')) ''plot'') []
       [(''linestyle'', VStr ''--''), (''color'', VStr ''tab:blue''),
        (''label'', VStr ''95% interval'')],
     ECall (VAttr (VItem (VObj 61) (VStr ''pi_upper'')) ''plot'') []
       [(''linestyle'', VStr ''--''), (''color'', VStr ''tab:blue''), (''label'', VStr ''_'')],
     ECall (VAttr (VAttr (VObj 59) ''endog'') ''plot'') [] [(''label'', VStr ''data'')],
     ECall (VAttr (VModule ''matplotlib.pyplot'') ''legend'') [] []]"

text \<open>The trace of a whole run in which the simulated frame has \<open>n\<close> columns.\<close>

definition full_trace :: "nat \<Rightarrow> event list" where
  "full_trace n = main_trace @ trace_columns n @ trace_closing"

text \<open>The value whose integer decides the number of columns: \<^verbatim>\<open>simulated.shape[1]\<close>.\<close>

definition simulated_columns :: val where
  "simulated_columns = VItem (VAttr (VObj 63) ''shape'') (VInt 1)"

text \<open>The environment after each cell that binds a name.\<close>

definition binds :: "(string \<times> val) list \<Rightarrow> (string \<times> val) list \<Rightarrow> (string \<times> val) list" where
  "binds bs e = fold (\<lambda>(x, v). bind x v) bs e"

definition env_imports :: "(string \<times> val) list" where
  "env_imports = binds [
     (''np'', VModule ''numpy''),
     (''plt'', VModule ''matplotlib.pyplot''),
     (''pd'', VModule ''pandas''),
     (''ETSModel'', VImported ''statsmodels.tsa.exponential_smoothing.ets'' ''ETSModel'')] []"

definition env_oil :: "(string \<times> val) list" where
  "env_oil = binds [(''oildata'', VList oildata_values), (''oil'', VObj 8)] env_imports"

definition env_oil_fit :: "(string \<times> val) list" where
  "env_oil_fit = binds [
     (''model'', VObj 12), (''fit'', VObj 14), (''params_R'', VList oil_params),
     (''yhat'', VAttr (VObj 20) ''fittedvalues'')] env_oil"

definition env_oil_heuristic :: "(string \<times> val) list" where
  "env_oil_heuristic = binds [
     (''model_heuristic'', VObj 24), (''fit_heuristic'', VObj 26),
     (''params'', VList oil_params), (''yhat'', VAttr (VObj 33) ''fittedvalues'')] env_oil_fit"

definition env_austourists :: "(string \<times> val) list" where
  "env_austourists = binds [
     (''austourists_data'', VList austourists_values), (''index'', VObj 40),
     (''austourists'', VObj 42)] env_oil_heuristic"

definition env_holt_winters :: "(string \<times> val) list" where
  "env_holt_winters = binds [
     (''model'', VObj 46), (''fit'', VObj 48), (''params_R'', VList holt_winters_params),
     (''fit_R'', VObj 51)] env_austourists"

definition env_get_prediction :: "(string \<times> val) list" where
  "env_get_prediction = binds [(''pred'', VObj 59)] env_holt_winters"

definition env_summary_frame :: "(string \<times> val) list" where
  "env_summary_frame = binds [(''df'', VObj 61)] env_get_prediction"

definition env_simulate :: "(string \<times> val) list" where
  "env_simulate = binds [(''simulated'', VObj 63)] env_summary_frame"

section \<open>Questions asked of the notebook and of its trace\<close>

subsection \<open>Of the trace\<close>

fun callee_name :: "val \<Rightarrow> string" where
  "callee_name (VAttr v a) = a"
| "callee_name (VImported m n) = n"
| "callee_name (VBuiltin n) = n"
| "callee_name v = []"

fun is_call_named :: "string list \<Rightarrow> event \<Rightarrow> bool" where
  "is_call_named fs (ECall fv vs kvs) = List.member fs (callee_name fv)"
| "is_call_named fs e = False"

fun is_bind_of :: "string list \<Rightarrow> event \<Rightarrow> bool" where
  "is_bind_of xs (EBind y v) = List.member xs y"
| "is_bind_of xs e = False"

fun is_store :: "event \<Rightarrow> bool" where
  "is_store (ESetItem obj k v) = True"
| "is_store e = False"

text \<open>The events that satisfy \<open>P\<close>, each with its position in the trace.\<close>

definition select :: "(event \<Rightarrow> bool) \<Rightarrow> event list \<Rightarrow> (nat \<times> event) list" where
  "select P tr = filter (\<lambda>(k, e). P e) (enumerate 0 tr)"

text \<open>
  A short form of a selected event: its position, the name it binds or calls, and the
  positions of the calls whose results it uses.
\<close>

fun label :: "event \<Rightarrow> string" where
  "label (EImport m) = m"
| "label (EMagic m) = m"
| "label (EBind x v) = x"
| "label (ESetItem obj k v) = callee_name obj"
| "label (ECall fv vs kvs) = callee_name fv"

text \<open>Every event that satisfies \<open>P\<close> comes before every event that satisfies \<open>Q\<close>.\<close>

definition all_before :: "(event \<Rightarrow> bool) \<Rightarrow> (event \<Rightarrow> bool) \<Rightarrow> event list \<Rightarrow> bool" where
  "all_before P Q tr =
     list_all (\<lambda>i. list_all (\<lambda>j. i < j) (map fst (select Q tr))) (map fst (select P tr))"

text \<open>The library objects a value or an event refers to, as positions in the trace.\<close>

fun refs :: "val \<Rightarrow> nat list"
  and refs_list :: "val list \<Rightarrow> nat list"
where
  "refs (VObj n) = [n]"
| "refs (VList ws) = refs_list ws"
| "refs (VTuple ws) = refs_list ws"
| "refs (VAttr w a) = refs w"
| "refs (VItem w i) = refs w @ refs i"
| "refs w = []"
| "refs_list [] = []"
| "refs_list (w # ws) = refs w @ refs_list ws"

fun event_refs :: "event \<Rightarrow> nat list" where
  "event_refs (EBind x w) = refs w"
| "event_refs (ESetItem obj k w) = refs obj @ refs k @ refs w"
| "event_refs (ECall fv vs kvs) = refs fv @ refs_list vs @ refs_list (map snd kvs)"
| "event_refs e = []"

text \<open>Every event refers only to objects that calls before it have returned.\<close>

definition produced_before_use :: "event list \<Rightarrow> bool" where
  "produced_before_use tr =
     list_all (\<lambda>(j, e). list_all (\<lambda>i. i < j) (event_refs e)) (enumerate 0 tr)"

definition row :: "nat \<times> event \<Rightarrow> nat \<times> string \<times> nat list" where
  "row p = (fst p, label (snd p), event_refs (snd p))"

definition trace_of :: "(error \<times> state) + state \<Rightarrow> event list" where
  "trace_of r = (case r of Inl (e, s) \<Rightarrow> trace s | Inr s \<Rightarrow> trace s)"

text \<open>
  The modelling interface of statsmodels that the notebook calls, and the routines of
  pandas and matplotlib it calls besides.
\<close>

definition api_names :: "string list" where
  "api_names = [''ETSModel'', ''fit'', ''smooth'', ''summary'', ''get_prediction'',
     ''summary_frame'', ''simulate'']"

definition data_names :: "string list" where
  "data_names = [''date_range'', ''Series'']"

definition plot_names :: "string list" where
  "plot_names = [''plot'', ''ylabel'', ''legend'']"

text \<open>
  Plotting in the last cell: binding the loop variable and calling a plotting routine.
\<close>

fun is_plotting :: "event \<Rightarrow> bool" where
  "is_plotting (EBind x v) = (x = ''i'')"
| "is_plotting (ECall fv vs kvs) = List.member plot_names (callee_name fv)"
| "is_plotting e = False"

text \<open>
  Libraries to run the notebook with. In the first no interaction raises and the
  simulated frame has the one hundred columns that \<^verbatim>\<open>repetitions=100\<close> asks for. In
  the others one interaction raises: the import of pandas (number 2), the first call
  of \<^verbatim>\<open>fit\<close> (number 17), or the first read of \<^verbatim>\<open>fit.fittedvalues\<close> (number 20).
  In the last every interaction raises.
\<close>

definition hundred_columns :: "val \<Rightarrow> int" where
  "hundred_columns v = 100"

definition import_fails :: lib where
  "import_fails = \<lparr>raises = (\<lambda>k. k = 2), int_value = hundred_columns\<rparr>"

definition fit_fails :: lib where
  "fit_fails = \<lparr>raises = (\<lambda>k. k = 17), int_value = hundred_columns\<rparr>"

definition read_fails :: lib where
  "read_fails = \<lparr>raises = (\<lambda>k. k = 20), int_value = hundred_columns\<rparr>"

definition all_fail :: lib where
  "all_fail = \<lparr>raises = (\<lambda>k. True), int_value = hundred_columns\<rparr>"

subsection \<open>Of exceptions\<close>

text \<open>
  The run was aborted by interaction \<open>k\<close>: that interaction raised, none before it
  did, and it is the last interaction the state has counted.
\<close>

definition aborted_at :: "lib \<Rightarrow> nat \<Rightarrow> state \<Rightarrow> bool" where
  "aborted_at L k s = (ticks s = Suc k \<and> raises L k \<and> quiet L 0 k)"

text \<open>
  An outcome in which no exception of a library was swallowed: either none of the
  interactions made has raised, or the run ended with the exception of the one
  interaction that raised, right after it. \<open>propagates\<close> speaks of the outcome of
  statements, \<open>good\<close> of the outcome of expressions.
\<close>

definition fails_ok :: "lib \<Rightarrow> error \<Rightarrow> state \<Rightarrow> bool" where
  "fails_ok L err s = (case err of Raised k \<Rightarrow> aborted_at L k s | _ \<Rightarrow> quiet L 0 (ticks s))"

definition propagates :: "lib \<Rightarrow> (error \<times> state) + state \<Rightarrow> bool" where
  "propagates L r =
     (case r of
        Inr s \<Rightarrow> quiet L 0 (ticks s)
      | Inl (err, s) \<Rightarrow> fails_ok L err s)"

definition good :: "lib \<Rightarrow> (error \<times> state) + ('a \<times> state) \<Rightarrow> bool" where
  "good L r =
     (case r of
        Inr (v, s) \<Rightarrow> quiet L 0 (ticks s)
      | Inl (err, s) \<Rightarrow> fails_ok L err s)"

subsection \<open>Of the syntax\<close>

text \<open>Whether some statement, at any depth, satisfies \<open>P\<close>.\<close>

fun any_stmt :: "(stmt \<Rightarrow> bool) \<Rightarrow> stmt \<Rightarrow> bool"
  and any_block :: "(stmt \<Rightarrow> bool) \<Rightarrow> stmt list \<Rightarrow> bool"
where
  "any_stmt P (For x e body) = (P (For x e body) \<or> any_block P body)"
| "any_stmt P (Try body handler) =
     (P (Try body handler) \<or> any_block P body \<or> any_block P handler)"
| "any_stmt P (IfStmt c thn els) = (P (IfStmt c thn els) \<or> any_block P thn \<or> any_block P els)"
| "any_stmt P (While c body) = (P (While c body) \<or> any_block P body)"
| "any_stmt P (FunctionDef f body) = (P (FunctionDef f body) \<or> any_block P body)"
| "any_stmt P (ClassDef c body) = (P (ClassDef c body) \<or> any_block P body)"
| "any_stmt P st = P st"
| "any_block P [] = False"
| "any_block P (st # sts) = (any_stmt P st \<or> any_block P sts)"

fun any_cell :: "(stmt \<Rightarrow> bool) \<Rightarrow> cell \<Rightarrow> bool" where
  "any_cell P (Markdown t) = False"
| "any_cell P (Code sts) = any_block P sts"

definition contains :: "(stmt \<Rightarrow> bool) \<Rightarrow> cell list \<Rightarrow> bool" where
  "contains P nb = list_ex (any_cell P) nb"

fun is_try :: "stmt \<Rightarrow> bool" where
  "is_try (Try body handler) = True"
| "is_try st = False"

fun is_if :: "stmt \<Rightarrow> bool" where
  "is_if (IfStmt c thn els) = True"
| "is_if st = False"

fun is_while :: "stmt \<Rightarrow> bool" where
  "is_while (While c body) = True"
| "is_while st = False"

fun is_def :: "stmt \<Rightarrow> bool" where
  "is_def (FunctionDef f body) = True"
| "is_def (ClassDef c body) = True"
| "is_def st = False"

text \<open>
  The calls written in an expression, in the order Python makes them: those of the
  callee, of the arguments and of the keyword arguments, then the call itself.
\<close>

fun calls_in :: "expr \<Rightarrow> expr list"
  and calls_in_list :: "expr list \<Rightarrow> expr list"
  and calls_in_kwargs :: "(string \<times> expr) list \<Rightarrow> expr list"
where
  "calls_in (Call f args kws) =
     calls_in f @ calls_in_list args @ calls_in_kwargs kws @ [Call f args kws]"
| "calls_in (Attr e a) = calls_in e"
| "calls_in (Subscript e i) = calls_in e @ calls_in i"
| "calls_in (ListE es) = calls_in_list es"
| "calls_in (TupleE es) = calls_in_list es"
| "calls_in (USub e) = calls_in e"
| "calls_in e = []"
| "calls_in_list [] = []"
| "calls_in_list (e # es) = calls_in e @ calls_in_list es"
| "calls_in_kwargs [] = []"
| "calls_in_kwargs ((k, e) # kws) = calls_in e @ calls_in_kwargs kws"

fun stmt_calls :: "stmt \<Rightarrow> expr list"
  and block_calls :: "stmt list \<Rightarrow> expr list"
where
  "stmt_calls (Assign target e) = calls_in e @ calls_in target"
| "stmt_calls (ExprStmt e) = calls_in e"
| "stmt_calls (For x e body) = calls_in e @ block_calls body"
| "stmt_calls (Try body handler) = block_calls body @ block_calls handler"
| "stmt_calls (IfStmt c thn els) = calls_in c @ block_calls thn @ block_calls els"
| "stmt_calls (While c body) = calls_in c @ block_calls body"
| "stmt_calls (FunctionDef f body) = block_calls body"
| "stmt_calls (ClassDef c body) = block_calls body"
| "stmt_calls st = []"
| "block_calls [] = []"
| "block_calls (st # sts) = stmt_calls st @ block_calls sts"

fun cell_calls :: "cell \<Rightarrow> expr list" where
  "cell_calls (Markdown t) = []"
| "cell_calls (Code sts) = block_calls sts"

definition notebook_calls :: "cell list \<Rightarrow> expr list" where
  "notebook_calls nb = concat (map cell_calls nb)"

fun call_name :: "expr \<Rightarrow> string" where
  "call_name (Call (Name f) args kws) = f"
| "call_name (Call (Attr e a) args kws) = a"
| "call_name e = []"

fun call_keywords :: "expr \<Rightarrow> string list" where
  "call_keywords (Call f args kws) = map fst kws"
| "call_keywords e = []"

text \<open>
  What a statement of the notebook is for. The call that decides is the outermost one,
  seen through attributes and subscripts: \<^verbatim>\<open>model.smooth(params_R).fittedvalues\<close> is a
  call of \<^verbatim>\<open>smooth\<close>. A list of float literals and a call of pandas that builds an
  index or a series define data; a store into \<^verbatim>\<open>rcParams\<close>, a call of a plotting
  routine, a bare name (which the notebook shows) and a loop of such statements display.
\<close>

datatype kind = Setup | Data | Modelling | Display | Other

fun outer_call :: "expr \<Rightarrow> string" where
  "outer_call (Call f args kws) = call_name (Call f args kws)"
| "outer_call (Attr e a) = outer_call e"
| "outer_call (Subscript e i) = outer_call e"
| "outer_call e = []"

definition call_kind :: "expr \<Rightarrow> kind" where
  "call_kind e =
     (if List.member data_names (outer_call e) then Data
      else if List.member api_names (outer_call e) then Modelling
      else if List.member plot_names (outer_call e) then Display
      else Other)"

definition assign_kind :: "expr \<Rightarrow> expr \<Rightarrow> kind" where
  "assign_kind target e =
     (case target of
        Name x \<Rightarrow>
          (case e of
             ListE es \<Rightarrow> if list_all is_float_lit es then Data else Other
           | _ \<Rightarrow> if call_kind e = Display then Other else call_kind e)
      | Subscript obj k \<Rightarrow>
          (case obj of Attr m a \<Rightarrow> if a = ''rcParams'' then Display else Other | _ \<Rightarrow> Other)
      | _ \<Rightarrow> Other)"

definition expr_kind :: "expr \<Rightarrow> kind" where
  "expr_kind e =
     (case e of
        Name x \<Rightarrow> Display
      | _ \<Rightarrow> if call_kind e = Data then Other else call_kind e)"

fun stmt_kind :: "stmt \<Rightarrow> kind"
  and all_display :: "stmt list \<Rightarrow> bool"
where
  "stmt_kind (Import m a) = Setup"
| "stmt_kind (ImportFrom m n) = Setup"
| "stmt_kind (Magic m) = Setup"
| "stmt_kind (Assign target e) = assign_kind target e"
| "stmt_kind (ExprStmt e) = expr_kind e"
| "stmt_kind (For x e body) = (if all_display body then Display else Other)"
| "stmt_kind st = Other"
| "all_display [] = True"
| "all_display (st # sts) = (stmt_kind st = Display \<and> all_display sts)"


text \<open>The expressions a block assigns to the name \<open>x\<close>, at its top level.\<close>

fun assigned :: "string \<Rightarrow> stmt list \<Rightarrow> expr list" where
  "assigned x [] = []"
| "assigned x (Assign (Name y) e # sts) = (if x = y then e # assigned x sts else assigned x sts)"
| "assigned x (st # sts) = assigned x sts"

text \<open>The calls of the modelling interface written in the notebook.\<close>

definition api_call_sites :: "cell list \<Rightarrow> expr list" where
  "api_call_sites nb = filter (\<lambda>c. List.member api_names (call_name c)) (notebook_calls nb)"

text \<open>Each such call with the keywords it passes, and all keywords passed, once each.\<close>

definition api_keywords :: "cell list \<Rightarrow> (string \<times> string list) list" where
  "api_keywords nb = map (\<lambda>c. (call_name c, call_keywords c)) (api_call_sites nb)"

definition config_keywords :: "cell list \<Rightarrow> string list" where
  "config_keywords nb = remdups (concat (map call_keywords (api_call_sites nb)))"

text \<open>
  The configuration parameters as the specification lists them: the error, trend and
  seasonal kind flags, the damping flag, the seasonal period count, the initialization
  method, the simulation anchor and the repetition count.
\<close>

definition stated_config_keywords :: "string list" where
  "stated_config_keywords = [''error'', ''trend'', ''seasonal'', ''damped_trend'',
     ''seasonal_periods'', ''initialization_method'', ''anchor'', ''repetitions'']"

subsection \<open>Of the dates\<close>

definition before :: "timestamp \<Rightarrow> timestamp \<Rightarrow> bool" where
  "before a b =
     (year a < year b \<or> (year a = year b \<and> (month a < month b \<or>
        (month a = month b \<and> day a < day b))))"

text \<open>A series is chronologically indexed: it has dates, each before the next.\<close>

definition chronological :: "'a series \<Rightarrow> bool" where
  "chronological s = (series_index s \<noteq> [] \<and> sorted_wrt before (series_index s))"

text \<open>The year and the quarter of the year a date falls in.\<close>

definition quarter_of :: "timestamp \<Rightarrow> nat \<times> nat" where
  "quarter_of t = (year t, (month t - 1) div 3 + 1)"

text \<open>
  The notebook says of \<^verbatim>\<open>simulate\<close> with the anchor \<^verbatim>\<open>end\<close> that the first simulated
  value is the first out-of-sample value (lines 300 and 331). The simulated horizon is
  therefore the \<open>n\<close> dates that follow the last date of the index, one step of the
  index apart.
\<close>

function periods_after :: "nat \<Rightarrow> nat \<Rightarrow> nat \<Rightarrow> timestamp list" where
  "periods_after cur step n =
     (if n = 0 then []
      else of_month_index (cur + step) # periods_after (cur + step) step (n - 1))"
  by pat_completeness auto
termination
  by (relation "measure (\<lambda>(cur, step, n). n)") auto

declare periods_after.simps [simp del]

definition simulation_index :: "timestamp list \<Rightarrow> freq \<Rightarrow> nat \<Rightarrow> timestamp list" where
  "simulation_index idx f n =
     (case rev idx of
        [] \<Rightarrow> []
      | t # ts \<Rightarrow> periods_after (month_index t) (step_months f) n)"

text \<open>
  Line 309: the dates of \<^verbatim>\<open>fit.simulate(anchor="end", nsimulations=17, ...)\<close> on the
  model of the tourist series, whose index has the frequency \<^verbatim>\<open>3MS\<close>.
\<close>

definition simulated_dates :: "pd_error + timestamp list" where
  "simulated_dates =
     (case index of
        Inl e \<Rightarrow> Inl e
      | Inr idx \<Rightarrow>
          (case parse_freq ''3MS'' of
             None \<Rightarrow> Inl (BadFreq ''3MS'')
           | Some f \<Rightarrow> Inr (simulation_index idx f 17)))"

section \<open>The data and the indexes\<close>

lemmas parse_defs =
  parse_timestamp_def parse_nat_def digit_val_def days_in_month_def parse_freq_def

lemmas date_range_defs =
  date_range_def parse_defs month_index_def of_month_index_def month_starts.simps

lemma length_oildata: "length oildata = 49"
  by (simp add: oildata_def)

lemma length_austourists_data: "length austourists_data = 68"
  by (simp add: austourists_data_def)



lemma length_oil_index: "map_sum id length (date_range ''1965'' ''2013'' ''AS'') = Inr 49"
  by (simp add: date_range_defs)

lemma length_index: "map_sum id length index = Inr 68"
  by (simp add: index_def date_range_defs)


lemma austourists_values: "map_sum id series_values austourists = Inr austourists_data"
  by (simp add: austourists_def Series_def length_austourists_data index_def date_range_defs)


subsection \<open>The indexes are in chronological order\<close>

lemma div_mod_less:
  fixes a b :: nat
  assumes "a < b"
  shows "a div 12 < b div 12 \<or> (a div 12 = b div 12 \<and> a mod 12 < b mod 12)"
proof -
  define qa ra qb rb where "qa = a div 12" and "ra = a mod 12" and "qb = b div 12" and "rb = b mod 12"
  have a: "a = 12 * qa + ra" and b: "b = 12 * qb + rb"
    by (simp_all add: qa_def ra_def qb_def rb_def)
  have "qa \<le> qb"
    unfolding qa_def qb_def by (rule div_le_mono) (use assms in simp)
  moreover have "ra < rb" if "qa = qb"
    using assms that unfolding a b by simp
  ultimately show ?thesis
    unfolding qa_def [symmetric] ra_def [symmetric] qb_def [symmetric] rb_def [symmetric]
    by (cases "qa = qb") simp_all
qed

lemma before_of_month_index: "a < b \<Longrightarrow> before (of_month_index a) (of_month_index b)"
  using div_mod_less [of a b] by (auto simp: before_def of_month_index_def)

lemma month_starts_stop: "hi < cur \<or> step = 0 \<Longrightarrow> month_starts cur hi step = []"
  by (subst month_starts.simps) simp

lemma month_starts_step:
  "\<not> (hi < cur \<or> step = 0) \<Longrightarrow>
   month_starts cur hi step = of_month_index cur # month_starts (cur + step) hi step"
  by (subst month_starts.simps) simp

lemma month_starts_from:
  "t \<in> set (month_starts cur hi step) \<Longrightarrow> \<exists>i\<ge>cur. t = of_month_index i"
proof (induction cur hi step rule: month_starts.induct)
  case (1 cur hi step)
  show ?case
  proof (cases "hi < cur \<or> step = 0")
    case True
    with "1.prems" show ?thesis by (simp add: month_starts_stop)
  next
    case False
    with "1.prems" have "t = of_month_index cur \<or> t \<in> set (month_starts (cur + step) hi step)"
      by (simp add: month_starts_step)
    then show ?thesis
    proof
      assume "t = of_month_index cur"
      then show ?thesis by blast
    next
      assume "t \<in> set (month_starts (cur + step) hi step)"
      with "1.IH" [OF False] obtain i where "cur + step \<le> i" "t = of_month_index i" by blast
      then show ?thesis by (intro exI [of _ i]) simp
    qed
  qed
qed

lemma sorted_month_starts: "sorted_wrt before (month_starts cur hi step)"
proof (induction cur hi step rule: month_starts.induct)
  case (1 cur hi step)
  show ?case
  proof (cases "hi < cur \<or> step = 0")
    case True
    then show ?thesis by (simp add: month_starts_stop)
  next
    case False
    have "before (of_month_index cur) t" if "t \<in> set (month_starts (cur + step) hi step)" for t
    proof -
      from month_starts_from [OF that] obtain i where "cur + step \<le> i" "t = of_month_index i"
        by blast
      with False show ?thesis by (simp add: before_of_month_index)
    qed
    with "1.IH" [OF False] show ?thesis
      by (simp add: month_starts_step [OF False])
  qed
qed

lemma date_range_sorted: "date_range a b f = Inr idx \<Longrightarrow> sorted_wrt before idx"
  by (auto simp: date_range_def sorted_month_starts split: option.splits)


lemma oil_chronological: "map_sum id chronological oil = Inr True"
proof -
  obtain idx where idx: "date_range ''1965'' ''2013'' ''AS'' = Inr idx" and len: "length idx = 49"
    using length_oil_index by (cases "date_range ''1965'' ''2013'' ''AS''") auto
  from idx have "sorted_wrt before idx" by (rule date_range_sorted)
  moreover from len have "idx \<noteq> []" by auto
  ultimately show ?thesis
    using idx len by (simp add: oil_def Series_def length_oildata chronological_def)
qed

lemma austourists_chronological: "map_sum id chronological austourists = Inr True"
proof -
  obtain idx where dr: "date_range ''1999-03-01'' ''2015-12-01'' ''3MS'' = Inr idx"
    and len: "length idx = 68"
    using length_index unfolding index_def
    by (cases "date_range ''1999-03-01'' ''2015-12-01'' ''3MS''") auto
  from dr have idx: "index = Inr idx" by (simp add: index_def)
  from dr have "sorted_wrt before idx" by (rule date_range_sorted)
  moreover from len have "idx \<noteq> []" by auto
  ultimately show ?thesis
    unfolding austourists_def idx
    using len by (simp add: Series_def length_austourists_data chronological_def)
qed


section \<open>The interpreter produces the trace\<close>

text \<open>
  Each cell is run from the environment the cells before it leave, on a trace of the
  length reached so far, with any library that does not raise in the interactions of
  the cell, and yields its events, its environment and the count of interactions. The
  cells compose to the run of the notebook.
\<close>

lemma eval_float_list:
  "list_all is_float_lit es \<Longrightarrow> eval_list L es s = Inr (List.map_filter float_val es, s)"
proof (induction es)
  case Nil
  show ?case by (simp add: List.map_filter_simps)
next
  case (Cons e es)
  from Cons.prems have e: "is_float_lit e" and es: "list_all is_float_lit es" by simp_all
  from e obtain v where v: "float_val e = Some v" "eval L e s = Inr (v, s)"
    by (cases e rule: is_float_lit.cases) (simp_all add: negate_def)
  show ?case using v Cons.IH [OF es] by (simp add: List.map_filter_simps)
qed

lemma eval_oildata: "eval_list L oildata s = Inr (oildata_values, s)"
  unfolding oildata_values_def by (rule eval_float_list) (simp add: oildata_def)

lemma eval_austourists_data: "eval_list L austourists_data s = Inr (austourists_values, s)"
  unfolding austourists_values_def by (rule eval_float_list) (simp add: austourists_data_def)

lemmas step_defs = assign_def call_def library_op_def library_read_def interact_def log_def
  subscript_def negate_def builtins_def eval_oildata eval_austourists_data binds_def

lemmas env_defs = env_imports_def env_oil_def env_oil_fit_def env_oil_heuristic_def
  env_austourists_def env_holt_winters_def env_get_prediction_def env_summary_frame_def
  env_simulate_def

lemma quiet_first:
  "quiet L 0 5 = (\<not> raises L 0 \<and> \<not> raises L (Suc 0) \<and> \<not> raises L (Suc (Suc 0)) \<and>
     \<not> raises L (Suc (Suc (Suc 0))) \<and> \<not> raises L (Suc (Suc (Suc (Suc 0)))))"
proof -
  have "[0..<5] = [0, 1, 2, 3, 4::nat]" by (simp add: upt_rec)
  then show ?thesis by (simp add: quiet_def eval_nat_numeral)
qed

lemma run_imports:
  "length T = 0 \<Longrightarrow> quiet L 0 5 \<Longrightarrow>
   exec_block L cell_imports \<lparr>env = [], trace = T, ticks = 0\<rparr> =
     Inr \<lparr>env = env_imports, trace = T @ trace_imports, ticks = 5\<rparr>"
  by (simp add: quiet_first cell_imports_def trace_imports_def step_defs env_defs)

lemma run_figsize:
  "length T = 5 \<Longrightarrow> quiet L 5 7 \<Longrightarrow>
   exec_block L cell_figsize \<lparr>env = env_imports, trace = T, ticks = 5\<rparr> =
     Inr \<lparr>env = env_imports, trace = T @ trace_figsize, ticks = 7\<rparr>"
  by (simp add: quiet_def cell_figsize_def trace_figsize_def step_defs env_defs)

lemma run_oil:
  "length T = 6 \<Longrightarrow> quiet L 7 15 \<Longrightarrow>
   exec_block L cell_oil \<lparr>env = env_imports, trace = T, ticks = 7\<rparr> =
     Inr \<lparr>env = env_oil, trace = T @ trace_oil, ticks = 15\<rparr>"
  by (simp add: quiet_def cell_oil_def trace_oil_def step_defs env_defs)

lemma run_oil_fit:
  "length T = 12 \<Longrightarrow> quiet L 15 32 \<Longrightarrow>
   exec_block L cell_oil_fit \<lparr>env = env_oil, trace = T, ticks = 15\<rparr> =
     Inr \<lparr>env = env_oil_fit, trace = T @ trace_oil_fit, ticks = 32\<rparr>"
  by (simp add: quiet_def cell_oil_fit_def trace_oil_fit_def step_defs env_defs oil_params_def)

lemma run_oil_heuristic:
  "length T = 24 \<Longrightarrow> quiet L 32 52 \<Longrightarrow>
   exec_block L cell_oil_heuristic \<lparr>env = env_oil_fit, trace = T, ticks = 32\<rparr> =
     Inr \<lparr>env = env_oil_heuristic, trace = T @ trace_oil_heuristic, ticks = 52\<rparr>"
  by (simp add: quiet_def cell_oil_heuristic_def trace_oil_heuristic_def step_defs env_defs oil_params_def)

lemma run_summary_fit:
  "length T = 37 \<Longrightarrow> quiet L 52 54 \<Longrightarrow>
   exec_block L cell_summary_fit \<lparr>env = env_oil_heuristic, trace = T, ticks = 52\<rparr> =
     Inr \<lparr>env = env_oil_heuristic, trace = T @ trace_summary_fit, ticks = 54\<rparr>"
  by (simp add: quiet_def cell_summary_fit_def trace_summary_fit_def step_defs env_defs)

lemma run_summary_heuristic:
  "length T = 38 \<Longrightarrow> quiet L 54 56 \<Longrightarrow>
   exec_block L cell_summary_heuristic \<lparr>env = env_oil_heuristic, trace = T, ticks = 54\<rparr> =
     Inr \<lparr>env = env_oil_heuristic, trace = T @ trace_summary_heuristic, ticks = 56\<rparr>"
  by (simp add: quiet_def cell_summary_heuristic_def trace_summary_heuristic_def step_defs env_defs)

lemma run_austourists:
  "length T = 39 \<Longrightarrow> quiet L 56 64 \<Longrightarrow>
   exec_block L cell_austourists \<lparr>env = env_oil_heuristic, trace = T, ticks = 56\<rparr> =
     Inr \<lparr>env = env_austourists, trace = T @ trace_austourists, ticks = 64\<rparr>"
  by (simp add: quiet_def cell_austourists_def trace_austourists_def step_defs env_defs)

lemma run_holt_winters:
  "length T = 46 \<Longrightarrow> quiet L 64 81 \<Longrightarrow>
   exec_block L cell_holt_winters \<lparr>env = env_austourists, trace = T, ticks = 64\<rparr> =
     Inr \<lparr>env = env_holt_winters, trace = T @ trace_holt_winters, ticks = 81\<rparr>"
  by (simp add: quiet_def cell_holt_winters_def trace_holt_winters_def step_defs env_defs holt_winters_params_def)

lemma run_summary_holt_winters:
  "length T = 58 \<Longrightarrow> quiet L 81 83 \<Longrightarrow>
   exec_block L cell_summary_holt_winters \<lparr>env = env_holt_winters, trace = T, ticks = 81\<rparr> =
     Inr \<lparr>env = env_holt_winters, trace = T @ trace_summary_holt_winters, ticks = 83\<rparr>"
  by (simp add: quiet_def cell_summary_holt_winters_def trace_summary_holt_winters_def step_defs env_defs)

lemma run_get_prediction:
  "length T = 59 \<Longrightarrow> quiet L 83 85 \<Longrightarrow>
   exec_block L cell_get_prediction \<lparr>env = env_holt_winters, trace = T, ticks = 83\<rparr> =
     Inr \<lparr>env = env_get_prediction, trace = T @ trace_get_prediction, ticks = 85\<rparr>"
  by (simp add: quiet_def cell_get_prediction_def trace_get_prediction_def step_defs env_defs)

lemma run_summary_frame:
  "length T = 61 \<Longrightarrow> quiet L 85 87 \<Longrightarrow>
   exec_block L cell_summary_frame \<lparr>env = env_get_prediction, trace = T, ticks = 85\<rparr> =
     Inr \<lparr>env = env_summary_frame, trace = T @ trace_summary_frame, ticks = 87\<rparr>"
  by (simp add: quiet_def cell_summary_frame_def trace_summary_frame_def step_defs env_defs)

lemma run_simulate:
  "length T = 63 \<Longrightarrow> quiet L 87 89 \<Longrightarrow>
   exec_block L cell_simulate \<lparr>env = env_summary_frame, trace = T, ticks = 87\<rparr> =
     Inr \<lparr>env = env_simulate, trace = T @ trace_simulate, ticks = 89\<rparr>"
  by (simp add: quiet_def cell_simulate_def trace_simulate_def step_defs env_defs)



lemma length_traces:
  "length trace_imports = 5" "length trace_figsize = 1" "length trace_oil = 6"
  "length trace_oil_fit = 12" "length trace_oil_heuristic = 13" "length trace_summary_fit = 1"
  "length trace_summary_heuristic = 1" "length trace_austourists = 7"
  "length trace_holt_winters = 12" "length trace_summary_holt_winters = 1"
  "length trace_get_prediction = 2" "length trace_summary_frame = 2"
  "length trace_simulate = 2"
  by (simp_all add: trace_imports_def trace_figsize_def trace_oil_def trace_oil_fit_def
      trace_oil_heuristic_def trace_summary_fit_def trace_summary_heuristic_def
      trace_austourists_def trace_holt_winters_def trace_summary_holt_winters_def
      trace_get_prediction_def trace_summary_frame_def trace_simulate_def)

lemmas run_cell = run_imports run_figsize run_oil run_oil_fit run_oil_heuristic run_summary_fit
  run_summary_heuristic run_austourists run_holt_winters run_summary_holt_winters
  run_get_prediction run_summary_frame run_simulate

lemma length_main_trace: "length main_trace = 65"
  by (simp add: main_trace_def length_traces)

lemma quiet_normal: "quiet (normal iv) a b"
  by (simp add: quiet_def normal_def list_all_iff)

lemma main_run:
  "run_cells (normal iv) (take 21 notebook) init =
     Inr \<lparr>env = env_simulate, trace = main_trace, ticks = 89\<rparr>"
  by (simp add: notebook_def init_def main_trace_def run_cell length_traces quiet_normal)

lemma map_of_bind: "map_of (bind x v e) y = (if y = x then Some v else map_of e y)"
  by (induction x v e rule: bind.induct) auto

lemma map_of_fold_bind: "y \<noteq> x \<Longrightarrow> map_of (fold (bind x) vs e) y = map_of e y"
  by (induction vs arbitrary: e) (simp_all add: map_of_bind)

text \<open>Each turn of the loop binds \<^verbatim>\<open>i\<close> and makes four interactions, the last a call.\<close>

lemma run_columns:
  assumes "map_of e ''simulated'' = Some sim" and "is_library sim"
  shows "exec_for (normal iv) ''i'' vs plot_column \<lparr>env = e, trace = T, ticks = c\<rparr> =
           Inr \<lparr>env = fold (bind ''i'') vs e, trace = T @ concat (map (column_events sim) vs),
                ticks = c + 4 * length vs\<rparr>"
  using assms
proof (induction vs arbitrary: e T c)
  case Nil
  show ?case by simp
next
  case (Cons v vs)
  have sim: "map_of (bind ''i'' v e) ''simulated'' = Some sim"
    using Cons.prems(1) by (simp add: map_of_bind)
  have body: "exec_block (normal iv) plot_column
                \<lparr>env = bind ''i'' v e, trace = T @ [EBind ''i'' v], ticks = c\<rparr> =
              Inr \<lparr>env = bind ''i'' v e, trace = T @ column_events sim v, ticks = c + 4\<rparr>"
    using sim Cons.prems(2)
    by (simp add: plot_column_def column_events_def map_of_bind call_def library_op_def
        library_read_def interact_def log_def subscript_def normal_def)
  show ?case
    using Cons.IH [OF sim Cons.prems(2), of "T @ column_events sim v" "c + 4"] body
    by (simp add: log_def)
qed

lemma lookup_simulated: "map_of env_simulate ''simulated'' = Some (VObj 63)"
  by (simp add: env_defs binds_def)

lemma length_columns: "length (columns n) = n"
  by (simp add: columns_def)

lemma run_plot_simulations:
  "exec_block (normal iv) cell_plot_simulations \<lparr>env = env_simulate, trace = T, ticks = 89\<rparr> =
     Inr \<lparr>env = fold (bind ''i'') (columns (nat (iv simulated_columns))) env_simulate,
          trace = T @ trace_columns (nat (iv simulated_columns)) @ trace_closing,
          ticks = 106 + 4 * nat (iv simulated_columns)\<rparr>"
proof -
  let ?n = "nat (iv simulated_columns)"
  let ?E = "fold (bind ''i'') (columns ?n) env_simulate"
  let ?A = "\<lparr>env = env_simulate, trace = T, ticks = 89\<rparr>"
  let ?B = "\<lparr>env = env_simulate, trace = T, ticks = 92\<rparr>"
  let ?C = "\<lparr>env = ?E, trace = T @ trace_columns ?n, ticks = 92 + 4 * ?n\<rparr>"
  have no_range: "map_of env_simulate ''range'' = None"
    by (simp add: env_defs binds_def)
  have bound: "eval (normal iv)
      (Call (Name ''range'') [Subscript (Attr (Name ''simulated'') ''shape'') (IntLit 1)] [])
      ?A = Inr (VList (columns ?n), ?B)"
    by (simp add: no_range lookup_simulated builtins_def call_def py_range_def subscript_def
        library_read_def interact_def normal_def columns_def simulated_columns_def)
  have loop: "exec_for (normal iv) ''i'' (columns ?n) plot_column ?B = Inr ?C"
    using run_columns [where vs = "columns ?n" and T = T and c = 92 and iv = iv,
        OF lookup_simulated]
    by (simp add: trace_columns_def length_columns)
  have for_stmt: "exec (normal iv) (For ''i'' (Call (Name ''range'')
      [Subscript (Attr (Name ''simulated'') ''shape'') (IntLit 1)] []) plot_column) ?A = Inr ?C"
    by (simp only: exec.simps bound loop sum.case prod.case val.case)
  have look: "map_of (fold (bind ''i'') vs env_simulate) ''df'' = Some (VObj 61)"
    "map_of (fold (bind ''i'') vs env_simulate) ''pred'' = Some (VObj 59)"
    "map_of (fold (bind ''i'') vs env_simulate) ''plt'' = Some (VModule ''matplotlib.pyplot'')" for vs
    by (simp_all add: map_of_fold_bind env_defs binds_def)
  have closing: "exec_block (normal iv) plot_summary ?C =
      Inr \<lparr>env = ?E, trace = T @ trace_columns ?n @ trace_closing, ticks = 106 + 4 * ?n\<rparr>"
    by (simp add: plot_summary_def look trace_closing_def call_def library_op_def
        library_read_def interact_def log_def subscript_def normal_def)
  show ?thesis
    unfolding cell_plot_simulations_def
    by (simp only: exec_block.simps for_stmt closing sum.case)
qed

lemma run_notebook:
  "run (normal iv) notebook =
     Inr \<lparr>env = fold (bind ''i'') (columns (nat (iv simulated_columns))) env_simulate,
          trace = full_trace (nat (iv simulated_columns)),
          ticks = 106 + 4 * nat (iv simulated_columns)\<rparr>"
proof -
  have split: "notebook = take 21 notebook @ [Code cell_plot_simulations,
      Markdown ''In this case, we chose end as simulation anchor'', Code []]"
    by (simp add: notebook_def)
  have app: "run_cells L (xs @ ys) s =
      (case run_cells L xs s of Inl err \<Rightarrow> Inl err | Inr s1 \<Rightarrow> run_cells L ys s1)" for L xs ys s
    by (induction xs arbitrary: s) (simp_all split: sum.splits)
  have "run (normal iv) notebook = run_cells (normal iv) (take 21 notebook @ [Code cell_plot_simulations,
      Markdown ''In this case, we chose end as simulation anchor'', Code []]) init"
    unfolding run_def using split by simp
  then show ?thesis
    by (simp only: app main_run sum.case run_cells.simps exec_cell.simps run_plot_simulations
        exec_block.simps full_trace_def)
qed

section \<open>Exceptions of the libraries\<close>

text \<open>
  Code without a handler cannot survive an exception: from a state in which no
  interaction has raised it reaches, whatever the expression or statement, an outcome
  in which none has raised or the last one did and ended the run.
\<close>

lemma quiet_Suc: "quiet L 0 (Suc k) = (quiet L 0 k \<and> \<not> raises L k)"
  by (simp add: quiet_def)

lemma interact_propagates: "quiet L 0 (ticks s) \<Longrightarrow> propagates L (interact L s)"
  by (simp add: interact_def propagates_def fails_ok_def aborted_at_def quiet_Suc)

lemma good_Inr: "quiet L 0 (ticks s) \<Longrightarrow> good L (Inr (v, s))"
  by (simp add: good_def)

lemma good_seq:
  assumes "good L r"
    and "\<And>v s1. r = Inr (v, s1) \<Longrightarrow> quiet L 0 (ticks s1) \<Longrightarrow> good L (f v s1)"
  shows "good L (case r of Inl err \<Rightarrow> Inl err | Inr (v, s1) \<Rightarrow> f v s1)"
  using assms by (cases r) (auto simp: good_def)

lemma good_unsupported: "quiet L 0 (ticks s) \<Longrightarrow> good L (Inl (Unsupported, s))"
  by (simp add: good_def fails_ok_def)

lemma library_op_good: "quiet L 0 (ticks s) \<Longrightarrow> good L (library_op L e s)"
  by (simp add: library_op_def interact_def log_def good_def fails_ok_def aborted_at_def
      quiet_Suc)

lemma library_read_good: "quiet L 0 (ticks s) \<Longrightarrow> good L (library_read L v s)"
  by (simp add: library_read_def interact_def good_def fails_ok_def aborted_at_def quiet_Suc)

lemma py_range_good: "quiet L 0 (ticks s) \<Longrightarrow> good L (py_range L vs kvs s)"
  by (auto simp: py_range_def library_read_good good_unsupported good_def [of L "Inr x" for x]
      good_def [of L "Inl (TypeError, s)"] fails_ok_def split: list.splits val.splits)

lemma call_good: "quiet L 0 (ticks s) \<Longrightarrow> good L (call L fv vs kvs s)"
  by (simp add: call_def library_op_good py_range_good) (simp add: good_def fails_ok_def)

lemma subscript_good: "quiet L 0 (ticks s) \<Longrightarrow> good L (subscript L w i s)"
  by (auto simp: subscript_def library_read_good good_unsupported good_def [of L "Inr x" for x]
      good_def [of L "Inl (IndexError, s)"] fails_ok_def split: val.splits option.splits)

lemma negate_good: "quiet L 0 (ticks s) \<Longrightarrow> good L (negate w s)"
  by (auto simp: negate_def good_def fails_ok_def split: val.splits)

lemma eval_good:
  "quiet L 0 (ticks s) \<Longrightarrow> good L (eval L e s)"
  "quiet L 0 (ticks s) \<Longrightarrow> good L (eval_list L es s)"
  "quiet L 0 (ticks s) \<Longrightarrow> good L (eval_kwargs L kws s)"
proof (induction L e s and L es s and L kws s rule: eval_eval_list_eval_kwargs.induct)
  case (1 L x s)
  then show ?case by (simp add: good_def fails_ok_def split: option.splits)
next
  case (2 L e a s)
  show ?case
    unfolding eval.simps
    by (rule good_seq) (use 2 in \<open>simp_all add: library_read_good good_unsupported\<close>)
next
  case (3 L f args kws s)
  show ?case
    unfolding eval.simps
  proof (rule good_seq)
    show "good L (eval L f s)" using 3 by simp
  next
    fix fv s1 assume f: "eval L f s = Inr (fv, s1)" and c1: "quiet L 0 (ticks s1)"
    show "good L (case eval_list L args s1 of Inl err \<Rightarrow> Inl err
           | Inr (vs, s2) \<Rightarrow> (case eval_kwargs L kws s2 of Inl err \<Rightarrow> Inl err
               | Inr (kvs, s3) \<Rightarrow> call L fv vs kvs s3))"
    proof (rule good_seq)
      show "good L (eval_list L args s1)" using "3.IH"(2) [OF f refl c1] .
    next
      fix vs s2 assume a: "eval_list L args s1 = Inr (vs, s2)" and c2: "quiet L 0 (ticks s2)"
      show "good L (case eval_kwargs L kws s2 of Inl err \<Rightarrow> Inl err
               | Inr (kvs, s3) \<Rightarrow> call L fv vs kvs s3)"
      proof (rule good_seq)
        show "good L (eval_kwargs L kws s2)" using "3.IH"(3) [OF f refl a refl c2] .
      qed (simp add: call_good)
    qed
  qed
next
  case (4 L e i s)
  show ?case
    unfolding eval.simps
  proof (rule good_seq)
    show "good L (eval L e s)" using 4 by simp
  next
    fix v s1 assume e: "eval L e s = Inr (v, s1)" and c1: "quiet L 0 (ticks s1)"
    show "good L (case eval L i s1 of Inl err \<Rightarrow> Inl err | Inr (iv, s2) \<Rightarrow> subscript L v iv s2)"
      by (rule good_seq) (use "4.IH"(2) [OF e refl c1] in \<open>simp_all add: subscript_good\<close>)
  qed
next
  case (9 L es s)
  show ?case
    unfolding eval.simps by (rule good_seq) (use 9 in \<open>simp_all add: good_def\<close>)
next
  case (10 L es s)
  show ?case
    unfolding eval.simps by (rule good_seq) (use 10 in \<open>simp_all add: good_def\<close>)
next
  case (12 L e s)
  show ?case
    unfolding eval.simps by (rule good_seq) (use 12 in \<open>simp_all add: negate_good\<close>)
next
  case (14 L e es s)
  show ?case
    unfolding eval_list.simps
  proof (rule good_seq)
    show "good L (eval L e s)" using 14 by simp
  next
    fix v s1 assume e: "eval L e s = Inr (v, s1)" and c1: "quiet L 0 (ticks s1)"
    show "good L (case eval_list L es s1 of Inl err \<Rightarrow> Inl err | Inr (vs, s2) \<Rightarrow> Inr (v # vs, s2))"
      by (rule good_seq) (use "14.IH"(2) [OF e refl c1] in \<open>simp_all add: good_def\<close>)
  qed
next
  case (16 L k e kws s)
  show ?case
    unfolding eval_kwargs.simps
  proof (rule good_seq)
    show "good L (eval L e s)" using 16 by simp
  next
    fix v s1 assume e: "eval L e s = Inr (v, s1)" and c1: "quiet L 0 (ticks s1)"
    show "good L (case eval_kwargs L kws s1 of Inl err \<Rightarrow> Inl err | Inr (kvs, s2) \<Rightarrow> Inr ((k, v) # kvs, s2))"
      by (rule good_seq) (use "16.IH"(2) [OF e refl c1] in \<open>simp_all add: good_def\<close>)
  qed
qed (simp_all add: good_def)


lemma propagates_seq:
  assumes "propagates L r"
    and "\<And>s1. r = Inr s1 \<Longrightarrow> quiet L 0 (ticks s1) \<Longrightarrow> propagates L (f s1)"
  shows "propagates L (case r of Inl err \<Rightarrow> Inl err | Inr s1 \<Rightarrow> f s1)"
  using assms by (cases r) (auto simp: propagates_def)

lemma good_then:
  assumes "good L r"
    and "\<And>v s1. r = Inr (v, s1) \<Longrightarrow> quiet L 0 (ticks s1) \<Longrightarrow> propagates L (f v s1)"
  shows "propagates L (case r of Inl err \<Rightarrow> Inl err | Inr (v, s1) \<Rightarrow> f v s1)"
  using assms by (cases r) (auto simp: good_def propagates_def)

lemma propagates_unsupported: "quiet L 0 (ticks s) \<Longrightarrow> propagates L (Inl (Unsupported, s))"
  by (simp add: propagates_def fails_ok_def)

lemma propagates_bind:
  "quiet L 0 (ticks s) \<Longrightarrow> propagates L (Inr (log (EBind x v) (s\<lparr>env := e\<rparr>)))"
  by (simp add: propagates_def log_def)

lemma assign_propagates:
  assumes "quiet L 0 (ticks s)"
  shows "propagates L (assign L target e s)"
  unfolding assign_def
proof (rule good_then)
  show "good L (eval L e s)" using assms by (rule eval_good)
next
  fix v and s1 :: state assume c1: "quiet L 0 (ticks s1)"
  have store: "propagates L
      (case eval L obj s1 of Inl err \<Rightarrow> Inl err
       | Inr (ov, s2) \<Rightarrow>
           (case eval L key s2 of Inl err \<Rightarrow> Inl err
            | Inr (kv, s3) \<Rightarrow>
                if is_library ov
                then (case library_op L (ESetItem ov kv v) s3 of Inl err \<Rightarrow> Inl err
                      | Inr (r, s4) \<Rightarrow> Inr s4)
                else Inl (Unsupported, s3)))" for obj key
  proof (rule good_then)
    show "good L (eval L obj s1)" using c1 by (rule eval_good)
  next
    fix ov and s2 :: state assume c2: "quiet L 0 (ticks s2)"
    show "propagates L
      (case eval L key s2 of Inl err \<Rightarrow> Inl err
       | Inr (kv, s3) \<Rightarrow>
           if is_library ov
           then (case library_op L (ESetItem ov kv v) s3 of Inl err \<Rightarrow> Inl err
                 | Inr (r, s4) \<Rightarrow> Inr s4)
           else Inl (Unsupported, s3))"
    proof (rule good_then)
      show "good L (eval L key s2)" using c2 by (rule eval_good)
    next
      fix kv and s3 :: state assume c3: "quiet L 0 (ticks s3)"
      have "propagates L (case library_op L (ESetItem ov kv v) s3 of Inl err \<Rightarrow> Inl err
                 | Inr (r, s4) \<Rightarrow> Inr s4)"
        by (rule good_then) (simp_all add: library_op_good c3 propagates_def)
      then show "propagates L
           (if is_library ov
            then (case library_op L (ESetItem ov kv v) s3 of Inl err \<Rightarrow> Inl err
                  | Inr (r, s4) \<Rightarrow> Inr s4)
            else Inl (Unsupported, s3))"
        using c3 by (simp add: propagates_unsupported)
    qed
  qed
  show "propagates L
      (case target of
         Name x \<Rightarrow> Inr (log (EBind x v) (s1\<lparr>env := bind x v (env s1)\<rparr>))
       | Subscript obj key \<Rightarrow>
           (case eval L obj s1 of Inl err \<Rightarrow> Inl err
            | Inr (ov, s2) \<Rightarrow>
                (case eval L key s2 of Inl err \<Rightarrow> Inl err
                 | Inr (kv, s3) \<Rightarrow>
                     if is_library ov
                     then (case library_op L (ESetItem ov kv v) s3 of Inl err \<Rightarrow> Inl err
                           | Inr (r, s4) \<Rightarrow> Inr s4)
                     else Inl (Unsupported, s3)))
       | _ \<Rightarrow> Inl (Unsupported, s1))"
    by (cases target) (simp_all add: c1 propagates_unsupported propagates_bind store)
qed

lemma exec_propagates:
  "\<not> any_stmt is_try st \<Longrightarrow> quiet L 0 (ticks s) \<Longrightarrow> propagates L (exec L st s)"
  "\<not> any_block is_try sts \<Longrightarrow> quiet L 0 (ticks s) \<Longrightarrow> propagates L (exec_block L sts s)"
  "\<not> any_block is_try body \<Longrightarrow> quiet L 0 (ticks s) \<Longrightarrow> propagates L (exec_for L x vs body s)"
proof (induction L st s and L sts s and L x vs body s rule: exec_exec_block_exec_for.induct)
  case (4 L target e s)
  then show ?case by (simp add: assign_propagates)
next
  case (5 L e s)
  show ?case
    unfolding exec.simps
    by (rule good_then) (use 5 in \<open>simp_all add: eval_good propagates_def\<close>)
next
  case (6 L x e body s)
  from "6.prems" have body: "\<not> any_block is_try body" by simp
  show ?case
    unfolding exec.simps
  proof (rule good_then)
    show "good L (eval L e s)" using "6.prems" by (simp add: eval_good)
  next
    fix v s1 assume e: "eval L e s = Inr (v, s1)" and c1: "quiet L 0 (ticks s1)"
    show "propagates L (case v of VList vs \<Rightarrow> exec_for L x vs body s1
             | VTuple vs \<Rightarrow> exec_for L x vs body s1 | _ \<Rightarrow> Inl (Unsupported, s1))"
      using "6.IH"(1) [OF e refl _ body c1] "6.IH"(2) [OF e refl _ body c1] c1
      by (cases v) (simp_all add: propagates_unsupported)
  qed
next
  case (7 L body handler s)
  then show ?case by simp
next
  case (8 L c thn els s)
  from "8.prems" have thn: "\<not> any_block is_try thn" and els: "\<not> any_block is_try els" by simp_all
  show ?case
    unfolding exec.simps
  proof (rule good_then)
    show "good L (eval L c s)" using "8.prems" by (simp add: eval_good)
  next
    fix v s1 assume e: "eval L c s = Inr (v, s1)" and c1: "quiet L 0 (ticks s1)"
    show "propagates L (case truthy v of None \<Rightarrow> Inl (Unsupported, s1)
             | Some b \<Rightarrow> if b then exec_block L thn s1 else exec_block L els s1)"
      using "8.IH"(1) [OF e refl _ _ thn c1] "8.IH"(2) [OF e refl _ _ els c1] c1
      by (cases "truthy v") (auto simp: propagates_unsupported)
  qed
next
  case (13 L st sts s)
  from "13.prems" have st: "\<not> any_stmt is_try st" and sts: "\<not> any_block is_try sts" by simp_all
  show ?case
    unfolding exec_block.simps
    by (rule propagates_seq) (use 13 st sts in simp_all)
next
  case (15 L x v vs body s)
  let ?s = "log (EBind x v) (s\<lparr>env := bind x v (env s)\<rparr>)"
  have c: "quiet L 0 (ticks ?s)" using "15.prems"(2) by (simp add: log_def)
  show ?case
    unfolding exec_for.simps
    by (rule propagates_seq) (use 15 c in simp_all)
qed (simp_all add: propagates_def fails_ok_def log_def interact_def aborted_at_def quiet_Suc)

lemma run_cells_propagates:
  "\<not> list_ex (any_cell is_try) nb \<Longrightarrow> quiet L 0 (ticks s) \<Longrightarrow> propagates L (run_cells L nb s)"
proof (induction nb arbitrary: s)
  case Nil
  then show ?case by (simp add: propagates_def)
next
  case (Cons c cs)
  from Cons.prems have c: "\<not> any_cell is_try c" and cs: "\<not> list_ex (any_cell is_try) cs"
    by simp_all
  have "propagates L (exec_cell L c s)"
  proof (cases c)
    case (Markdown t)
    then show ?thesis using Cons.prems(2) by (simp add: propagates_def)
  next
    case (Code sts)
    then show ?thesis using c Cons.prems(2) by (simp add: exec_propagates)
  qed
  then show ?case
    unfolding run_cells.simps
    by (rule propagates_seq) (use Cons.IH cs in simp)
qed

lemmas cell_defs = cell_imports_def cell_figsize_def cell_oil_def cell_oil_fit_def
  cell_oil_heuristic_def cell_summary_fit_def cell_summary_heuristic_def cell_austourists_def
  cell_holt_winters_def cell_summary_holt_winters_def cell_get_prediction_def
  cell_summary_frame_def cell_simulate_def cell_plot_simulations_def plot_column_def
  plot_summary_def

lemma no_statement_forms:
  "\<not> contains is_try notebook" "\<not> contains is_if notebook" "\<not> contains is_while notebook"
  "\<not> contains is_def notebook"
  by (simp_all add: contains_def notebook_def cell_defs)

text \<open>
  C3. The notebook has no \<^verbatim>\<open>try\<close>, no \<^verbatim>\<open>while\<close> and no \<^verbatim>\<open>if\<close>: nothing handles,
  retries or branches on an error. So in every run, whatever the libraries do, an
  exception of a library is never survived, be it raised by an import, a magic, a
  read of an attribute or of an item, a call or a store: either no interaction with
  a library raised, or the run ended with the exception of the first one that
  raised, and none was made after it.
\<close>
theorem exceptions_propagate:
  "\<not> contains is_try notebook \<and> \<not> contains is_while notebook \<and> \<not> contains is_if notebook \<and>
   propagates L (run L notebook)"
proof -
  have "propagates L (run_cells L notebook init)"
    by (rule run_cells_propagates)
      (use no_statement_forms(1) in \<open>simp_all add: contains_def init_def quiet_def\<close>)
  then show ?thesis
    using no_statement_forms by (simp add: run_def)
qed

text \<open>
  The theorem at work: when the first call of \<^verbatim>\<open>fit\<close> raises, the run ends there, with
  \<^verbatim>\<open>model\<close> bound and nothing after the call recorded.
\<close>

lemma quiet_fit_fails: "quiet fit_fails 0 5" "quiet fit_fails 5 7" "quiet fit_fails 7 15"
  by (simp_all add: quiet_def fit_fails_def list_all_iff)

lemma oil_fit_fails:
  "length T = 12 \<Longrightarrow>
   exec_block fit_fails cell_oil_fit \<lparr>env = env_oil, trace = T, ticks = 15\<rparr> =
     Inl (Raised 17, \<lparr>env = bind ''model'' (VObj 12) env_oil, trace = T @ take 3 trace_oil_fit,
                      ticks = 18\<rparr>)"
  by (simp add: cell_oil_fit_def trace_oil_fit_def step_defs env_defs fit_fails_def)

lemma run_fit_fails:
  "run fit_fails notebook =
     Inl (Raised 17, \<lparr>env = bind ''model'' (VObj 12) env_oil, trace = take 15 main_trace,
                      ticks = 18\<rparr>)"
  by (simp add: run_def notebook_def init_def main_trace_def run_imports run_figsize run_oil
      oil_fit_fails quiet_fit_fails length_traces)

theorem exceptions_propagate_witness:
  "run fit_fails notebook =
     Inl (Raised 17, \<lparr>env = bind ''model'' (VObj 12) env_oil, trace = take 15 main_trace,
                      ticks = 18\<rparr>) \<and>
   aborted_at fit_fails 17
     \<lparr>env = bind ''model'' (VObj 12) env_oil, trace = take 15 main_trace, ticks = 18\<rparr>"
  using exceptions_propagate [of fit_fails]
  by (simp add: run_fit_fails propagates_def fails_ok_def)

text \<open>
  What raises need not be a call. When the import of pandas raises, the run ends at
  the third line of the first cell, with \<^verbatim>\<open>np\<close> and \<^verbatim>\<open>plt\<close> bound and \<^verbatim>\<open>pd\<close> not.
\<close>

lemma run_import_fails:
  "run import_fails notebook =
     Inl (Raised 2,
          \<lparr>env = [(''np'', VModule ''numpy''), (''plt'', VModule ''matplotlib.pyplot'')],
           trace = [EImport ''numpy'', EImport ''matplotlib.pyplot'', EImport ''pandas''],
           ticks = 3\<rparr>)"
  by (simp add: run_def notebook_def init_def cell_imports_def interact_def log_def
      import_fails_def)

text \<open>
  When the read of \<^verbatim>\<open>fit.fittedvalues\<close> raises, the run ends in the fourth statement of
  the cell that fits the oil model, before the call of \<^verbatim>\<open>plot\<close> on the attribute is made.
\<close>

lemma quiet_read_fails: "quiet read_fails 0 5" "quiet read_fails 5 7" "quiet read_fails 7 15"
  by (simp_all add: quiet_def read_fails_def list_all_iff)

lemma oil_fit_read_fails:
  "length T = 12 \<Longrightarrow>
   exec_block read_fails cell_oil_fit \<lparr>env = env_oil, trace = T, ticks = 15\<rparr> =
     Inl (Raised 20, \<lparr>env = bind ''fit'' (VObj 14) (bind ''model'' (VObj 12) env_oil),
                      trace = T @ take 5 trace_oil_fit, ticks = 21\<rparr>)"
  by (simp add: cell_oil_fit_def trace_oil_fit_def step_defs env_defs read_fails_def)

lemma run_read_fails:
  "run read_fails notebook =
     Inl (Raised 20, \<lparr>env = bind ''fit'' (VObj 14) (bind ''model'' (VObj 12) env_oil),
                      trace = take 17 main_trace, ticks = 21\<rparr>)"
  by (simp add: run_def notebook_def init_def main_trace_def run_imports run_figsize run_oil
      oil_fit_read_fails quiet_read_fails length_traces)

text \<open>
  A handler is what the theorem excludes: with one around it, a call that raises is
  survived, and the outcome has counted an interaction that raised.
\<close>

lemma handler_swallows:
  "\<not> propagates all_fail
       (exec_block all_fail [Try [ExprStmt (Call (Name ''ETSModel'') [] [])] []]
          \<lparr>env = env_imports, trace = [], ticks = 0\<rparr>)"
  by (simp add: step_defs env_defs all_fail_def propagates_def quiet_def)

section \<open>Facts about the trace of every run\<close>

text \<open>
  The number of columns of the simulated frame is the library's to decide, so the
  trace is \<open>full_trace n\<close> for some \<open>n\<close>. Selections that the plotting of the last
  cell cannot meet are decided on \<open>main_trace\<close>.
\<close>

lemmas trace_defs = trace_imports_def trace_figsize_def trace_oil_def trace_oil_fit_def
      trace_oil_heuristic_def trace_summary_fit_def trace_summary_heuristic_def
      trace_austourists_def trace_holt_winters_def trace_summary_holt_winters_def
      trace_get_prediction_def trace_summary_frame_def trace_simulate_def

lemma length_trace_columns: "length (trace_columns n) = 2 * n"
  by (simp add: trace_columns_def columns_def column_events_def length_concat comp_def sum_list_triv)

lemma in_trace_columns:
  "e \<in> set (trace_columns n) \<Longrightarrow> \<exists>k. e \<in> set (column_events (VObj 63) (VInt (int k)))"
  by (auto simp: trace_columns_def columns_def)

lemma select_append:
  "select P (xs @ ys) = select P xs @ filter (\<lambda>(k, e). P e) (enumerate (length xs) ys)"
  by (simp add: select_def enumerate_append_eq)

lemma filter_enumerate_none:
  "(\<And>e. e \<in> set xs \<Longrightarrow> \<not> P e) \<Longrightarrow> filter (\<lambda>(k, e). P e) (enumerate m xs) = []"
  by (auto simp: filter_empty_conv in_set_enumerate_eq)

lemma select_full_trace:
  assumes "\<And>k. list_all (\<lambda>e. \<not> P e) (column_events (VObj 63) (VInt (int k)))"
    and "list_all (\<lambda>e. \<not> P e) trace_closing"
  shows "select P (full_trace n) = select P main_trace"
proof -
  have 1: "filter (\<lambda>(k, e). P e) (enumerate m (trace_columns n)) = []" for m
  proof (rule filter_enumerate_none)
    fix e assume "e \<in> set (trace_columns n)"
    then obtain k where "e \<in> set (column_events (VObj 63) (VInt (int k)))"
      using in_trace_columns by blast
    with assms(1) [of k] show "\<not> P e" by (simp add: list_all_iff)
  qed
  have 2: "filter (\<lambda>(k, e). P e) (enumerate m trace_closing) = []" for m
    by (rule filter_enumerate_none) (use assms(2) in \<open>simp add: list_all_iff\<close>)
  show ?thesis
    unfolding full_trace_def by (simp add: select_append 1 2 enumerate_append_eq)
qed

lemma select_binds:
  "\<not> List.member xs ''i'' \<Longrightarrow> select (is_bind_of xs) (full_trace n) = select (is_bind_of xs) main_trace"
  by (rule select_full_trace) (simp_all add: column_events_def trace_closing_def)

lemma select_calls:
  "\<not> List.member fs ''plot'' \<Longrightarrow> \<not> List.member fs ''legend'' \<Longrightarrow>
   select (is_call_named fs) (full_trace n) = select (is_call_named fs) main_trace"
  by (rule select_full_trace) (simp_all add: column_events_def trace_closing_def)

lemma select_store: "select is_store (full_trace n) = select is_store main_trace"
  by (rule select_full_trace) (simp_all add: column_events_def trace_closing_def)

lemma drop_full_trace: "drop 65 (full_trace n) = trace_columns n @ trace_closing"
  by (simp add: full_trace_def length_main_trace)

lemma plotting_after_main: "list_all is_plotting (drop 65 (full_trace n))"
proof -
  have "is_plotting e" if "e \<in> set (trace_columns n)" for e
  proof -
    from that obtain k where "e \<in> set (column_events (VObj 63) (VInt (int k)))"
      using in_trace_columns by blast
    then show ?thesis by (auto simp: column_events_def plot_names_def)
  qed
  moreover have "list_all is_plotting trace_closing"
    by (simp add: trace_closing_def plot_names_def)
  ultimately show ?thesis
    by (auto simp: drop_full_trace list_all_iff)
qed

lemma list_all_enumerate:
  "(\<And>j e. m \<le> j \<Longrightarrow> e \<in> set xs \<Longrightarrow> Q j e) \<Longrightarrow> list_all (\<lambda>(j, e). Q j e) (enumerate m xs)"
  by (auto simp: list_all_iff in_set_enumerate_eq)

lemma produced_main: "produced_before_use main_trace"
  by code_simp

lemma produced_full: "produced_before_use (full_trace n)"
proof -
  have cols: "list_all (\<lambda>(j, e). list_all (\<lambda>i. i < j) (event_refs e)) (enumerate 65 (trace_columns n))"
  proof (rule list_all_enumerate)
    fix j :: nat and e assume j: "65 \<le> j" and "e \<in> set (trace_columns n)"
    then obtain k where "e \<in> set (column_events (VObj 63) (VInt (int k)))"
      using in_trace_columns by blast
    then show "list_all (\<lambda>i. i < j) (event_refs e)"
      using j by (auto simp: column_events_def)
  qed
  have closing: "list_all (\<lambda>(j, e). list_all (\<lambda>i. i < j) (event_refs e))
      (enumerate (65 + 2 * n) trace_closing)"
    by (rule list_all_enumerate) (auto simp: trace_closing_def)
  show ?thesis
    using produced_main cols closing
    by (simp add: produced_before_use_def full_trace_def enumerate_append_eq length_main_trace
        length_trace_columns)
qed

lemma full_trace_nth: "k < 65 \<Longrightarrow> full_trace n ! k = main_trace ! k"
  by (simp add: full_trace_def nth_append length_main_trace)

section \<open>The claims about the run\<close>

lemma main_nth:
  "main_trace ! 20 = ECall (VAttr (VObj 12) ''smooth'') [VList oil_params] []"
  "main_trace ! 33 = ECall (VAttr (VObj 12) ''smooth'') [VList oil_params] []"
  by code_simp+

text \<open>
  The two calls of \<^verbatim>\<open>smooth\<close> in the oil section (positions 20 and 33) are recorded as
  the same call: the two lists of R parameters are the same literal, and both calls are
  made on the model of position 12, which \<^verbatim>\<open>model\<close> names until position 47, with that
  list as the only argument. What \<^verbatim>\<open>smooth\<close> computes from them is statsmodels' to say.
\<close>

lemma smooth_calls_recorded:
  "assigned ''params_R'' cell_oil_fit = assigned ''params'' cell_oil_heuristic \<and>
   (\<exists>s. run (normal iv) notebook = Inr s \<and>
      trace s ! 20 = ECall (VAttr (VObj 12) ''smooth'') [VList oil_params] [] \<and>
      trace s ! 33 = ECall (VAttr (VObj 12) ''smooth'') [VList oil_params] [] \<and>
      select (is_bind_of [''model'']) (trace s) =
        [(13, EBind ''model'' (VObj 12)), (47, EBind ''model'' (VObj 46))] \<and>
      select (is_bind_of [''yhat'']) (trace s) =
        [(21, EBind ''yhat'' (VAttr (VObj 20) ''fittedvalues'')),
         (34, EBind ''yhat'' (VAttr (VObj 33) ''fittedvalues''))])"
proof -
  let ?n = "nat (iv simulated_columns)"
  have 0: "assigned ''params_R'' cell_oil_fit = assigned ''params'' cell_oil_heuristic"
    by (simp add: cell_oil_fit_def cell_oil_heuristic_def)
  have 1: "select (is_bind_of [''model'']) (full_trace ?n) =
        [(13, EBind ''model'' (VObj 12)), (47, EBind ''model'' (VObj 46))]"
    by (simp add: select_binds) code_simp
  have 2: "select (is_bind_of [''yhat'']) (full_trace ?n) =
        [(21, EBind ''yhat'' (VAttr (VObj 20) ''fittedvalues'')),
         (34, EBind ''yhat'' (VAttr (VObj 33) ''fittedvalues''))]"
    by (simp add: select_binds) code_simp
  show ?thesis
    unfolding run_notebook using 0 1 2 by (simp add: full_trace_nth main_nth)
qed

text \<open>
  Each of the names of the data is bound once, and the only store that the notebook
  itself makes is the figure size, into matplotlib's settings. What the routines of
  pandas, matplotlib and statsmodels do to the series they are given is theirs to say.
\<close>

lemma data_bound_once:
  "\<exists>s. run (normal iv) notebook = Inr s \<and>
     map row (select (is_bind_of [''oildata'', ''oil'', ''austourists_data'', ''index'',
                        ''austourists'']) (trace s)) =
       [(6, ''oildata'', []), (9, ''oil'', [8]), (39, ''austourists_data'', []),
        (41, ''index'', [40]), (43, ''austourists'', [42])] \<and>
     map row (select is_store (trace s)) = [(5, ''rcParams'', [])]"
proof -
  let ?n = "nat (iv simulated_columns)"
  have 1: "map row (select (is_bind_of [''oildata'', ''oil'', ''austourists_data'', ''index'',
                        ''austourists'']) (full_trace ?n)) =
       [(6, ''oildata'', []), (9, ''oil'', [8]), (39, ''austourists_data'', []),
        (41, ''index'', [40]), (43, ''austourists'', [42])]"
    by (simp add: select_binds) code_simp
  have 2: "map row (select is_store (full_trace ?n)) = [(5, ''rcParams'', [])]"
    by (simp add: select_store) code_simp
  show ?thesis
    unfolding run_notebook using 1 2 by simp
qed

lemma trace_of_run: "trace_of (run (normal iv) notebook) = full_trace (nat (iv simulated_columns))"
  by (simp add: run_notebook trace_of_def)

text \<open>
  C4, as stated, fails: it has both datasets loaded before any model is
  constructed, but \<^verbatim>\<open>austourists_data\<close> is bound at position 39, after the models of
  positions 12 and 24.
\<close>
theorem datasets_not_all_before_models:
  "\<not> all_before (is_bind_of [''oildata'', ''austourists_data'']) (is_call_named [''ETSModel''])
       (trace_of (run (normal hundred_columns) notebook))"
  unfolding trace_of_run all_before_def
  by (simp add: select_binds select_calls) code_simp

text \<open>
  C4, amended. \<^verbatim>\<open>oildata\<close> is loaded (6) before its series (8) and the two oil models
  (12, 24); \<^verbatim>\<open>austourists_data\<close> is loaded (39) after them and before its series (42)
  and the seasonal model (46). Every model is constructed before it is fitted or
  smoothed, every fit comes before the summary, prediction and simulation calls made
  on it, and every event uses only objects that earlier calls returned. From position
  65 on, after the last modelling call (63), the run only plots.
\<close>
theorem steps_in_sequence:
  "\<exists>s. run (normal iv) notebook = Inr s \<and>
     map row (select (is_bind_of [''oildata'', ''austourists_data'']) (trace s)) =
       [(6, ''oildata'', []), (39, ''austourists_data'', [])] \<and>
     map row (select (is_call_named data_names) (trace s)) =
       [(7, ''date_range'', []), (8, ''Series'', [7]),
        (40, ''date_range'', []), (42, ''Series'', [40])] \<and>
     map row (select (is_call_named api_names) (trace s)) =
       [(12, ''ETSModel'', [8]), (14, ''fit'', [12]), (20, ''smooth'', [12]),
        (24, ''ETSModel'', [8]), (26, ''fit'', [24]), (33, ''smooth'', [12]),
        (37, ''summary'', [14]), (38, ''summary'', [26]),
        (46, ''ETSModel'', [42]), (48, ''fit'', [46]), (51, ''smooth'', [46]),
        (58, ''summary'', [48]), (59, ''get_prediction'', [48]),
        (61, ''summary_frame'', [59]), (63, ''simulate'', [48])] \<and>
     produced_before_use (trace s) \<and>
     list_all is_plotting (drop 65 (trace s))"
proof -
  let ?n = "nat (iv simulated_columns)"
  have 1: "map row (select (is_bind_of [''oildata'', ''austourists_data'']) (full_trace ?n)) =
       [(6, ''oildata'', []), (39, ''austourists_data'', [])]"
    by (simp add: select_binds) code_simp
  have 2: "map row (select (is_call_named data_names) (full_trace ?n)) =
       [(7, ''date_range'', []), (8, ''Series'', [7]),
        (40, ''date_range'', []), (42, ''Series'', [40])]"
    by (simp add: select_calls data_names_def) code_simp
  have 3: "map row (select (is_call_named api_names) (full_trace ?n)) =
       [(12, ''ETSModel'', [8]), (14, ''fit'', [12]), (20, ''smooth'', [12]),
        (24, ''ETSModel'', [8]), (26, ''fit'', [24]), (33, ''smooth'', [12]),
        (37, ''summary'', [14]), (38, ''summary'', [26]),
        (46, ''ETSModel'', [42]), (48, ''fit'', [46]), (51, ''smooth'', [46]),
        (58, ''summary'', [48]), (59, ''get_prediction'', [48]),
        (61, ''summary_frame'', [59]), (63, ''simulate'', [48])]"
    by (simp add: select_calls api_names_def) code_simp
  show ?thesis
    unfolding run_notebook
    using 1 2 3 produced_full [of ?n] plotting_after_main [of ?n] by simp
qed






text \<open>
  C6, as stated, fails: \<^verbatim>\<open>fit\<close> is passed \<^verbatim>\<open>maxiter\<close>, which is not among the
  parameters the specification lists.
\<close>
theorem maxiter_is_passed:
  "List.member (config_keywords notebook) ''maxiter'' \<and>
   \<not> List.member stated_config_keywords ''maxiter''"
  by code_simp

text \<open>
  C6, amended. The keyword arguments passed to the modelling interface are the eight
  the specification lists and five more: \<^verbatim>\<open>maxiter\<close> to \<^verbatim>\<open>fit\<close>, \<^verbatim>\<open>start\<close> and
  \<^verbatim>\<open>end\<close> to \<^verbatim>\<open>get_prediction\<close>, \<^verbatim>\<open>alpha\<close> to \<^verbatim>\<open>summary_frame\<close> and
  \<^verbatim>\<open>nsimulations\<close> to \<^verbatim>\<open>simulate\<close>.
\<close>
theorem configuration_keywords:
  "api_keywords notebook =
     [(''ETSModel'', [''error'', ''trend'', ''damped_trend'']),
      (''fit'', [''maxiter'']),
      (''smooth'', []),
      (''ETSModel'', [''error'', ''trend'', ''damped_trend'', ''initialization_method'']),
      (''fit'', []),
      (''smooth'', []),
      (''summary'', []),
      (''summary'', []),
      (''ETSModel'', [''error'', ''trend'', ''seasonal'', ''damped_trend'', ''seasonal_periods'']),
      (''fit'', []),
      (''smooth'', []),
      (''summary'', []),
      (''get_prediction'', [''start'', ''end'']),
      (''summary_frame'', [''alpha'']),
      (''simulate'', [''anchor'', ''nsimulations'', ''repetitions''])] \<and>
   set (config_keywords notebook) =
     set (stated_config_keywords @ [''maxiter'', ''start'', ''end'', ''alpha'', ''nsimulations''])"
proof -
  have 1: "api_keywords notebook =
     [(''ETSModel'', [''error'', ''trend'', ''damped_trend'']),
      (''fit'', [''maxiter'']),
      (''smooth'', []),
      (''ETSModel'', [''error'', ''trend'', ''damped_trend'', ''initialization_method'']),
      (''fit'', []),
      (''smooth'', []),
      (''summary'', []),
      (''summary'', []),
      (''ETSModel'', [''error'', ''trend'', ''seasonal'', ''damped_trend'', ''seasonal_periods'']),
      (''fit'', []),
      (''smooth'', []),
      (''summary'', []),
      (''get_prediction'', [''start'', ''end'']),
      (''summary_frame'', [''alpha'']),
      (''simulate'', [''anchor'', ''nsimulations'', ''repetitions''])]"
    by code_simp
  have 2: "config_keywords notebook =
     [''maxiter'', ''initialization_method'', ''error'', ''trend'', ''seasonal'',
      ''damped_trend'', ''seasonal_periods'', ''start'', ''end'', ''alpha'', ''anchor'',
      ''nsimulations'', ''repetitions'']"
    by code_simp
  have 3: "set (config_keywords notebook) =
     set (stated_config_keywords @ [''maxiter'', ''start'', ''end'', ''alpha'', ''nsimulations''])"
    unfolding 2 stated_config_keywords_def by auto
  show ?thesis using 1 3 by simp
qed

text \<open>
  C9. \<^verbatim>\<open>model\<close>, \<^verbatim>\<open>fit\<close> and \<^verbatim>\<open>params_R\<close> are each bound twice, the second time in
  the Holt-Winters cell. The only calls of \<^verbatim>\<open>get_prediction\<close> and \<^verbatim>\<open>simulate\<close> are
  made on the object of position 48, the fit of the model of position 46, which is
  the seasonal model built from the series of position 42, the series of
  \<^verbatim>\<open>austourists_data\<close>; the two oil fits are the objects of positions 14 and 26.
\<close>
theorem predictions_on_seasonal_fit:
  "\<exists>s. run (normal iv) notebook = Inr s \<and>
     map snd (select (is_bind_of [''model'']) (trace s)) =
       [EBind ''model'' (VObj 12), EBind ''model'' (VObj 46)] \<and>
     map snd (select (is_bind_of [''fit'']) (trace s)) =
       [EBind ''fit'' (VObj 14), EBind ''fit'' (VObj 48)] \<and>
     map snd (select (is_bind_of [''params_R'']) (trace s)) =
       [EBind ''params_R'' (VList oil_params), EBind ''params_R'' (VList holt_winters_params)] \<and>
     select (is_call_named [''get_prediction'', ''simulate'']) (trace s) =
       [(59, ECall (VAttr (VObj 48) ''get_prediction'') []
               [(''start'', VStr ''2014''), (''end'', VStr ''2020'')]),
        (63, ECall (VAttr (VObj 48) ''simulate'') []
               [(''anchor'', VStr ''end''), (''nsimulations'', VInt 17),
                (''repetitions'', VInt 100)])] \<and>
     select (is_call_named [''fit'']) (trace s) =
       [(14, ECall (VAttr (VObj 12) ''fit'') [] [(''maxiter'', VInt 10000)]),
        (26, ECall (VAttr (VObj 24) ''fit'') [] []),
        (48, ECall (VAttr (VObj 46) ''fit'') [] [])] \<and>
     select (is_call_named [''ETSModel'']) (trace s) =
       [(12, ECall (VImported ''statsmodels.tsa.exponential_smoothing.ets'' ''ETSModel'')
               [VObj 8]
               [(''error'', VStr ''add''), (''trend'', VStr ''add''),
                (''damped_trend'', VBool True)]),
        (24, ECall (VImported ''statsmodels.tsa.exponential_smoothing.ets'' ''ETSModel'')
               [VObj 8]
               [(''error'', VStr ''add''), (''trend'', VStr ''add''),
                (''damped_trend'', VBool True), (''initialization_method'', VStr ''heuristic'')]),
        (46, ECall (VImported ''statsmodels.tsa.exponential_smoothing.ets'' ''ETSModel'')
               [VObj 42]
               [(''error'', VStr ''add''), (''trend'', VStr ''add''),
                (''seasonal'', VStr ''add''), (''damped_trend'', VBool True),
                (''seasonal_periods'', VInt 4)])] \<and>
     select (is_call_named [''Series'']) (trace s) =
       [(8, ECall (VAttr (VModule ''pandas'') ''Series'') [VList oildata_values]
              [(''index'', VObj 7)]),
        (42, ECall (VAttr (VModule ''pandas'') ''Series'') [VList austourists_values]
               [(''index'', VObj 40)])]"
  unfolding run_notebook
  by (simp add: select_binds select_calls) code_simp

lemma index_explicit: "map_sum id last index = Inr \<lparr>year = 2015, month = 12, day = 1\<rparr>"
  by (simp add: index_def date_range_defs)

lemma simulated_dates_explicit:
  "simulated_dates = Inr [
     \<lparr>year = 2016, month = 3, day = 1\<rparr>, \<lparr>year = 2016, month = 6, day = 1\<rparr>,
     \<lparr>year = 2016, month = 9, day = 1\<rparr>, \<lparr>year = 2016, month = 12, day = 1\<rparr>,
     \<lparr>year = 2017, month = 3, day = 1\<rparr>, \<lparr>year = 2017, month = 6, day = 1\<rparr>,
     \<lparr>year = 2017, month = 9, day = 1\<rparr>, \<lparr>year = 2017, month = 12, day = 1\<rparr>,
     \<lparr>year = 2018, month = 3, day = 1\<rparr>, \<lparr>year = 2018, month = 6, day = 1\<rparr>,
     \<lparr>year = 2018, month = 9, day = 1\<rparr>, \<lparr>year = 2018, month = 12, day = 1\<rparr>,
     \<lparr>year = 2019, month = 3, day = 1\<rparr>, \<lparr>year = 2019, month = 6, day = 1\<rparr>,
     \<lparr>year = 2019, month = 9, day = 1\<rparr>, \<lparr>year = 2019, month = 12, day = 1\<rparr>,
     \<lparr>year = 2020, month = 3, day = 1\<rparr>]"
  by (simp add: simulated_dates_def simulation_index_def index_def date_range_defs
      periods_after.simps)

text \<open>
  C10. The index of the tourist series ends on 2015-12-01. Simulating from the end for
  17 steps of three months gives 17 dates, one in each quarter from the first quarter
  of 2016 to the first quarter of 2020.
\<close>
theorem simulation_horizon:
  "assigned ''simulated'' cell_simulate =
     [Call (Attr (Name ''fit'') ''simulate'') []
        [(''anchor'', Str ''end''), (''nsimulations'', IntLit 17),
         (''repetitions'', IntLit 100)]] \<and>
   map_sum id last index = Inr \<lparr>year = 2015, month = 12, day = 1\<rparr> \<and>
   map_sum id length simulated_dates = Inr 17 \<and>
   map_sum id (map quarter_of) simulated_dates =
     Inr [(2016, 1), (2016, 2), (2016, 3), (2016, 4),
          (2017, 1), (2017, 2), (2017, 3), (2017, 4),
          (2018, 1), (2018, 2), (2018, 3), (2018, 4),
          (2019, 1), (2019, 2), (2019, 3), (2019, 4),
          (2020, 1)]"
  by (simp add: cell_simulate_def index_explicit simulated_dates_explicit quarter_of_def)

end
